theory Spec2Isabelle
  imports Complex_Main
begin

section \<open>Advantage Actor Critic (A2C.py)\<close>

text \<open>
  A shallow embedding of \<^verbatim>\<open>A2C.py\<close>. NumPy arrays and tensors of floats are lists of
  reals (the arithmetic is the exact one, not the rounded one of float32), but in the
  continuous actor, where infinities, NaN and underflow decide what holds: there they are
  float32 values. Python integers are \<open>int\<close>, lengths are \<open>nat\<close>, and exceptions are
  values of the type \<open>error\<close>.
  Everything outside the file (the environment, the TensorFlow session, the summary writer,
  the reporter, the trajectory collector of the base class) is a parameter that acts on an
  abstract world \<open>'w\<close> and may raise.
\<close>

subsection \<open>Errors and effects\<close>

datatype error =
    KeyboardInterrupt
  | SystemExit
  | NotImplementedError
  | ValueError
  | OtherError

text \<open>
  A computation takes a state and returns either an exception or a value, with the state
  it left. \<open>and_then\<close> is sequencing: an exception ends the sequence at once.
\<close>

definition ret :: "'a \<Rightarrow> 'st \<Rightarrow> (error + 'a) \<times> 'st" where
  "ret a st = (Inr a, st)"

definition lift :: "error + 'a \<Rightarrow> 'st \<Rightarrow> (error + 'a) \<times> 'st" where
  "lift r st = (r, st)"

definition and_then ::
  "('st \<Rightarrow> (error + 'a) \<times> 'st) \<Rightarrow> ('a \<Rightarrow> 'st \<Rightarrow> (error + 'b) \<times> 'st)
     \<Rightarrow> 'st \<Rightarrow> (error + 'b) \<times> 'st" where
  "and_then m k st =
     (case m st of (Inl e, st') \<Rightarrow> (Inl e, st') | (Inr a, st') \<Rightarrow> k a st')"

text \<open>
  The state of a run of \<open>learn\<close> is the world together with the list of the external calls
  completed so far, oldest first. \<open>call f ev\<close> performs the external call \<open>f\<close> on the world
  and, when it returns, records the event \<open>ev\<close> of its result. A call that raises records
  nothing.
\<close>

definition call ::
  "('w \<Rightarrow> (error + 'a) \<times> 'w) \<Rightarrow> ('a \<Rightarrow> 'ev) \<Rightarrow> 'w \<times> 'ev list
     \<Rightarrow> (error + 'a) \<times> ('w \<times> 'ev list)" where
  "call f ev st =
     (case f (fst st) of
        (Inl e, w') \<Rightarrow> (Inl e, (w', snd st))
      | (Inr a, w') \<Rightarrow> (Inr a, (w', snd st @ [ev a])))"

subsection \<open>Return computation\<close>

text \<open>
  Modelled from the spec: \<^verbatim>\<open>discount_rewards\<close> is imported from \<^verbatim>\<open>utils\<close>, which is
  not among the sources. The spec's contract for it: given rewards \<open>r_0..r_{T-1}\<close> and a
  discount factor \<open>\<gamma>\<close>, the result has the same length and its value at step \<open>t\<close> is
  \<open>r_t + \<gamma> r_{t+1} + \<gamma>\<^sup>2 r_{t+2} + \<dots> + \<gamma>^(T-1-t) r_{T-1}\<close>.
\<close>

definition discounted_return :: "real list \<Rightarrow> real \<Rightarrow> nat \<Rightarrow> real" where
  "discounted_return r g t = (\<Sum>k\<leftarrow>[t..<length r]. g ^ (k - t) * r ! k)"

definition discount_rewards :: "real list \<Rightarrow> real \<Rightarrow> real list" where
  "discount_rewards r g = map (discounted_return r g) [0..<length r]"

subsection \<open>Data of the learner\<close>

text \<open>
  A trajectory is the dictionary the collector returns for one episode: the arrays under
  the keys \<^verbatim>\<open>"state"\<close>, \<^verbatim>\<open>"action"\<close> and \<^verbatim>\<open>"reward"\<close>.
\<close>

record ('s, 'a) trajectory =
  state :: "'s list"
  action :: "'a list"
  reward :: "real list"

text \<open>The configuration dictionary of \<^verbatim>\<open>A2C.__init__\<close>, with its defaults.\<close>

record config =
  episode_max_length :: "int option"
  timesteps_per_batch :: int
  trajectories_per_batch :: int
  batch_update :: string
  n_iter :: int
  gamma :: real
  actor_learning_rate :: real
  critic_learning_rate :: real
  actor_n_hidden :: int
  critic_n_hidden :: int
  repeat_n_actions :: int

definition default_config :: "int option \<Rightarrow> config" where
  "default_config max_episode_steps =
     \<lparr> episode_max_length = max_episode_steps,
       timesteps_per_batch = 2000,
       trajectories_per_batch = 10,
       batch_update = ''timesteps'',
       n_iter = 400,
       gamma = 99 / 100,
       actor_learning_rate = 1 / 100,
       critic_learning_rate = 5 / 100,
       actor_n_hidden = 20,
       critic_n_hidden = 20,
       repeat_n_actions = 1 \<rparr>"

text \<open>
  The feed dictionary of the training step. The key \<open>actor_input\<close> is the placeholder
  \<^verbatim>\<open>self.actor_input\<close> of the discrete learner and \<^verbatim>\<open>self.input_state\<close> of the
  continuous one; \<open>'m\<close> is the type of the fed actions (a 0/1 matrix, or the raw actions).
\<close>

record ('s, 'm) feed =
  critic_state_in :: "'s list"
  critic_target :: "real list"
  actor_input :: "'s list"
  actions_taken :: 'm
  critic_feedback :: "real list"
  critic_rewards :: "real list"
  rewards :: real
  episode_lengths :: real

text \<open>The external calls of one training iteration, with what they returned.\<close>

datatype ('s, 'a, 'm, 'r) event =
    Get_trajectories "('s, 'a) trajectory list"
  | Critic_value "'s list" "real list list"
  | Train "('s, 'm) feed" 'r
  | Add_summary 'r nat
  | Flush
  | Print_iteration_stats nat "real list" "nat list" nat

text \<open>
  What \<open>learn\<close> uses of the learner object: the collector \<^verbatim>\<open>self.get_trajectories\<close> of the
  base class, the two uses of \<^verbatim>\<open>self.sess.run\<close> (the critic's value, and the summary
  with the two training operations, of which \<open>learn\<close> keeps \<^verbatim>\<open>results[0]\<close>), the summary
  writer, and the reporter.
\<close>

record ('w, 's, 'a, 'm, 'r) learner_ops =
  get_trajectories :: "'w \<Rightarrow> (error + ('s, 'a) trajectory list) \<times> 'w"
  sess_run_critic_value :: "'s list \<Rightarrow> 'w \<Rightarrow> (error + real list list) \<times> 'w"
  sess_run_train :: "('s, 'm) feed \<Rightarrow> 'w \<Rightarrow> (error + 'r) \<times> 'w"
  add_summary :: "'r \<Rightarrow> nat \<Rightarrow> 'w \<Rightarrow> (error + unit) \<times> 'w"
  flush :: "'w \<Rightarrow> (error + unit) \<times> 'w"
  print_iteration_stats ::
    "nat \<Rightarrow> real list \<Rightarrow> nat list \<Rightarrow> nat \<Rightarrow> 'w \<Rightarrow> (error + unit) \<times> 'w"

subsection \<open>NumPy operations\<close>

text \<open>\<^verbatim>\<open>np.concatenate\<close> of an empty sequence of arrays raises \<^verbatim>\<open>ValueError\<close>.\<close>

definition np_concatenate :: "'x list list \<Rightarrow> error + 'x list" where
  "np_concatenate arrays = (case arrays of [] \<Rightarrow> Inl ValueError | _ # _ \<Rightarrow> Inr (concat arrays))"

text \<open>
  \<^verbatim>\<open>np.mean\<close>. On an empty array NumPy returns nan; \<open>learn\<close> never gets there, since
  \<^verbatim>\<open>np.concatenate\<close> has raised before.
\<close>

definition np_mean :: "real list \<Rightarrow> real" where
  "np_mean xs = sum_list xs / real (length xs)"

text \<open>\<^verbatim>\<open>np.arange(self.nA)\<close>.\<close>

definition possible_actions :: "int \<Rightarrow> int list" where
  "possible_actions nA = [0..nA - 1]"

text \<open>\<^verbatim>\<open>(possible_actions == all_action[:, None]).astype(np.float32)\<close>: one row per action.\<close>

definition one_hot_actions :: "int list \<Rightarrow> int list \<Rightarrow> real list list" where
  "one_hot_actions possible all_action =
     map (\<lambda>a. map (\<lambda>p. if p = a then 1 else 0) possible) all_action"

subsection \<open>The training loop\<close>

definition get_critic_value ::
  "('w, 's, 'a, 'm, 'r) learner_ops \<Rightarrow> 's list
     \<Rightarrow> 'w \<times> ('s, 'a, 'm, 'r) event list
     \<Rightarrow> (error + real list) \<times> ('w \<times> ('s, 'a, 'm, 'r) event list)" where
  "get_critic_value ops st =
     and_then (call (sess_run_critic_value ops st) (Critic_value st))
       (\<lambda>value. ret (concat value))"

text \<open>
  The body of the loop of \<open>learn\<close>. The two learners have the same body, but for the
  encoding of the concatenated actions, which is the parameter \<open>encode\<close>: the discrete
  learner compares them with \<open>possible_actions\<close>, the continuous one feeds them as they are.
  The body returns the new value of \<^verbatim>\<open>total_n_trajectories\<close>.
\<close>

definition learn_iteration ::
  "('a list \<Rightarrow> 'm) \<Rightarrow> ('w, 's, 'a, 'm, 'r) learner_ops \<Rightarrow> config \<Rightarrow> nat \<Rightarrow> nat
     \<Rightarrow> 'w \<times> ('s, 'a, 'm, 'r) event list
     \<Rightarrow> (error + nat) \<times> ('w \<times> ('s, 'a, 'm, 'r) event list)" where
  "learn_iteration encode ops cfg iteration total_n_trajectories =
     and_then (call (get_trajectories ops) Get_trajectories) (\<lambda>trajectories.
     and_then (lift (np_concatenate (map action trajectories))) (\<lambda>all_action.
     and_then (lift (np_concatenate (map state trajectories))) (\<lambda>all_state.
     and_then (lift (np_concatenate
                (map (\<lambda>trajectory. discount_rewards (reward trajectory) (gamma cfg))
                   trajectories))) (\<lambda>returns.
     and_then (get_critic_value ops all_state) (\<lambda>qw_new.
     let total_n = total_n_trajectories + length trajectories;
         episode_rewards = map (\<lambda>trajectory. sum_list (reward trajectory)) trajectories;
         episode_lens = map (\<lambda>trajectory. length (reward trajectory)) trajectories;
         feed_dict = \<lparr> critic_state_in = all_state,
                       critic_target = returns,
                       actor_input = all_state,
                       actions_taken = encode all_action,
                       critic_feedback = qw_new,
                       critic_rewards = returns,
                       rewards = np_mean episode_rewards,
                       episode_lengths = np_mean (map real episode_lens) \<rparr>
     in
     and_then (call (sess_run_train ops feed_dict) (Train feed_dict)) (\<lambda>results.
     and_then (call (add_summary ops results iteration)
                (\<lambda>_. Add_summary results iteration)) (\<lambda>_.
     and_then (call (flush ops) (\<lambda>_. Flush)) (\<lambda>_.
     and_then (call (print_iteration_stats ops iteration episode_rewards episode_lens total_n)
                (\<lambda>_. Print_iteration_stats iteration episode_rewards episode_lens total_n))
       (\<lambda>_. ret total_n)))))))))"

text \<open>\<^verbatim>\<open>for iteration in range(...)\<close>, carrying \<^verbatim>\<open>total_n_trajectories\<close>.\<close>

fun learn_loop ::
  "(nat \<Rightarrow> nat \<Rightarrow> 'st \<Rightarrow> (error + nat) \<times> 'st) \<Rightarrow> nat list \<Rightarrow> nat \<Rightarrow> 'st
     \<Rightarrow> (error + unit) \<times> 'st" where
  "learn_loop body [] total_n st = (Inr (), st)"
| "learn_loop body (iteration # rest) total_n st =
     (case body iteration total_n st of
        (Inl e, st') \<Rightarrow> (Inl e, st')
      | (Inr total_n', st') \<Rightarrow> learn_loop body rest total_n' st')"

definition A2C_learn ::
  "('w, 's, int, real list list, 'r) learner_ops \<Rightarrow> config \<Rightarrow> int
     \<Rightarrow> 'w \<times> ('s, int, real list list, 'r) event list
     \<Rightarrow> (error + unit) \<times> ('w \<times> ('s, int, real list list, 'r) event list)" where
  "A2C_learn ops cfg nA =
     learn_loop (learn_iteration (one_hot_actions (possible_actions nA)) ops cfg)
       [0..<nat (n_iter cfg)] 0"

definition A2CContinuous_learn ::
  "('w, 's, 'a, 'a list, 'r) learner_ops \<Rightarrow> config
     \<Rightarrow> 'w \<times> ('s, 'a, 'a list, 'r) event list
     \<Rightarrow> (error + unit) \<times> ('w \<times> ('s, 'a, 'a list, 'r) event list)" where
  "A2CContinuous_learn ops cfg =
     learn_loop (learn_iteration (\<lambda>all_action. all_action) ops cfg)
       [0..<nat (n_iter cfg)] 0"

text \<open>Reading a log: the feeds of the training steps, and the batches collected.\<close>

fun train_feed :: "('s, 'a, 'm, 'r) event \<Rightarrow> ('s, 'm) feed option" where
  "train_feed (Train fd r) = Some fd"
| "train_feed _ = None"

fun collected :: "('s, 'a, 'm, 'r) event \<Rightarrow> ('s, 'a) trajectory list option" where
  "collected (Get_trajectories ts) = Some ts"
| "collected _ = None"

definition train_feeds :: "('s, 'a, 'm, 'r) event list \<Rightarrow> ('s, 'm) feed list" where
  "train_feeds evs = List.map_filter train_feed evs"

definition batches :: "('s, 'a, 'm, 'r) event list \<Rightarrow> ('s, 'a) trajectory list list" where
  "batches evs = List.map_filter collected evs"

text \<open>
  The feed dictionary the body builds from the trajectories of an iteration and the
  critic's values, and the calls of one complete iteration in the order the body makes
  them. Both restate the body, for the statements about logs.
\<close>

definition feed_dict_of ::
  "('a list \<Rightarrow> 'm) \<Rightarrow> config \<Rightarrow> ('s, 'a) trajectory list \<Rightarrow> real list
     \<Rightarrow> ('s, 'm) feed" where
  "feed_dict_of encode cfg trajectories qw_new =
     \<lparr> critic_state_in = concat (map state trajectories),
       critic_target = concat (map (\<lambda>trajectory.
          discount_rewards (reward trajectory) (gamma cfg)) trajectories),
       actor_input = concat (map state trajectories),
       actions_taken = encode (concat (map action trajectories)),
       critic_feedback = qw_new,
       critic_rewards = concat (map (\<lambda>trajectory.
          discount_rewards (reward trajectory) (gamma cfg)) trajectories),
       rewards = np_mean (map (\<lambda>trajectory. sum_list (reward trajectory)) trajectories),
       episode_lengths =
         np_mean (map real (map (\<lambda>trajectory. length (reward trajectory)) trajectories)) \<rparr>"

definition iteration_events ::
  "('a list \<Rightarrow> 'm) \<Rightarrow> config \<Rightarrow> nat \<Rightarrow> nat \<Rightarrow> ('s, 'a) trajectory list
     \<Rightarrow> real list list \<Rightarrow> 'r \<Rightarrow> ('s, 'a, 'm, 'r) event list" where
  "iteration_events encode cfg iteration total_n_trajectories trajectories value results =
     [Get_trajectories trajectories,
      Critic_value (concat (map state trajectories)) value,
      Train (feed_dict_of encode cfg trajectories (concat value)) results,
      Add_summary results iteration,
      Flush,
      Print_iteration_stats iteration
        (map (\<lambda>trajectory. sum_list (reward trajectory)) trajectories)
        (map (\<lambda>trajectory. length (reward trajectory)) trajectories)
        (total_n_trajectories + length trajectories)]"

text \<open>The calls a computation adds to the log of the state it starts from.\<close>

definition calls_of ::
  "('w \<times> 'ev list \<Rightarrow> 'x \<times> ('w \<times> 'ev list)) \<Rightarrow> 'w \<times> 'ev list \<Rightarrow> 'ev list" where
  "calls_of f st = drop (length (snd st)) (snd (snd (f st)))"

definition gradient_updates ::
  "('w \<times> ('s, 'a, 'm, 'r) event list \<Rightarrow> 'x \<times> ('w \<times> ('s, 'a, 'm, 'r) event list))
     \<Rightarrow> 'w \<times> ('s, 'a, 'm, 'r) event list \<Rightarrow> ('s, 'm) feed list" where
  "gradient_updates f st = train_feeds (calls_of f st)"

definition collected_batches ::
  "('w \<times> ('s, 'a, 'm, 'r) event list \<Rightarrow> 'x \<times> ('w \<times> ('s, 'a, 'm, 'r) event list))
     \<Rightarrow> 'w \<times> ('s, 'a, 'm, 'r) event list \<Rightarrow> ('s, 'a) trajectory list list" where
  "collected_batches f st = batches (calls_of f st)"

text \<open>
  A check on a log: every training step comes right after a query of the critic's value
  on the states the step is fed, and the baseline it is fed is the flattened answer.
\<close>

fun baseline_before_update :: "('s, 'a, 'm, 'r) event list \<Rightarrow> bool" where
  "baseline_before_update [] = True"
| "baseline_before_update (Critic_value s v # Train fd r # evs) =
     (critic_state_in fd = s \<and> critic_feedback fd = concat v \<and> baseline_before_update evs)"
| "baseline_before_update (Train fd r # evs) = False"
| "baseline_before_update (e # evs) = baseline_before_update evs"

text \<open>
  A trajectory as the collector builds it has one state, one action and one reward per
  step; its length is the length of its reward array, as in \<^verbatim>\<open>episode_lengths\<close>.
\<close>

definition well_formed :: "('s, 'a) trajectory \<Rightarrow> bool" where
  "well_formed trajectory \<longleftrightarrow>
     length (state trajectory) = length (reward trajectory) \<and>
     length (action trajectory) = length (reward trajectory)"

subsection \<open>A small learner for the examples\<close>

text \<open>
  The world is the number of batches collected so far. Every collection returns the same
  trajectories, but the one in the world \<open>interrupt_at\<close>, if any: there the collector is
  interrupted. The critic answers zero for every state; the other calls do nothing.
\<close>

definition example_ops ::
  "('s, 'a) trajectory list \<Rightarrow> nat option \<Rightarrow> (nat, 's, 'a, 'm, unit) learner_ops" where
  "example_ops trajectories interrupt_at =
     \<lparr> get_trajectories =
         (\<lambda>w. if Some w = interrupt_at then (Inl KeyboardInterrupt, w)
              else (Inr trajectories, w + 1)),
       sess_run_critic_value = (\<lambda>s w. (Inr (map (\<lambda>_. [0]) s), w)),
       sess_run_train = (\<lambda>fd w. (Inr (), w)),
       add_summary = (\<lambda>r i w. (Inr (), w)),
       flush = (\<lambda>w. (Inr (), w)),
       print_iteration_stats = (\<lambda>i rs ls n w. (Inr (), w)) \<rparr>"

definition discrete_trajectories :: "(nat, int) trajectory list" where
  "discrete_trajectories =
     [\<lparr> state = [0, 1], action = [1, 0], reward = [1, 2] \<rparr>,
      \<lparr> state = [2], action = [2], reward = [4] \<rparr>]"

definition continuous_trajectories :: "(nat, real) trajectory list" where
  "continuous_trajectories =
     [\<lparr> state = [0, 1], action = [1 / 2, - 1], reward = [1, 2] \<rparr>,
      \<lparr> state = [2], action = [2], reward = [4] \<rparr>]"

definition example_config :: config where
  "example_config = (default_config None) \<lparr> n_iter := 2, gamma := 1 / 2 \<rparr>"

subsection \<open>Discrete actor: the loss of \<open>build_networks\<close>\<close>

text \<open>
  \<open>prob_na\<close> is the output of the softmax layer, one row of \<open>nA\<close> probabilities per
  state. In float32 a probability can underflow to zero, so the rows are taken as
  arbitrary reals here.
  \<^verbatim>\<open>tf.reduce_sum(tf.multiply(self.prob_na, self.actions_taken), reduction_indices=[1])\<close>:
\<close>

definition good_probabilities :: "real list list \<Rightarrow> real list list \<Rightarrow> real list" where
  "good_probabilities prob_na taken =
     map (\<lambda>(p, a). sum_list (map2 (*) p a)) (zip prob_na taken)"

text \<open>
  The argument of \<^verbatim>\<open>tf.log\<close>:
  \<^verbatim>\<open>tf.where(tf.equal(good_probabilities, 0.0), 1e-30, good_probabilities)\<close>, the
  constants filled to the shape of \<open>good_probabilities\<close>.
\<close>

definition log_argument :: "real list \<Rightarrow> real list" where
  "log_argument good = map (\<lambda>p. if p = 0 then 1 / 10 ^ 30 else p) good"

definition eligibility :: "real list \<Rightarrow> real list \<Rightarrow> real list \<Rightarrow> real list" where
  "eligibility good rewards_in feedback_in =
     map2 (\<lambda>l advantage. ln l * advantage) (log_argument good)
       (map2 (-) rewards_in feedback_in)"

definition reduce_mean :: "real list \<Rightarrow> real" where
  "reduce_mean xs = sum_list xs / real (length xs)"

definition loss :: "real list \<Rightarrow> real list \<Rightarrow> real list \<Rightarrow> real" where
  "loss good rewards_in feedback_in = - reduce_mean (eligibility good rewards_in feedback_in)"

subsection \<open>Float32 arithmetic of the continuous actor\<close>

text \<open>
  What the spec says of the continuous actor is decided by the values that are not
  numbers and by underflow, so here the tensors are float32 values and not reals: a finite
  value, one of the two infinities, or NaN. The two zeros are not told apart.
\<close>

datatype fval = NaN | NegInf | Finite (number: real) | PosInf

text \<open>Rounding to the nearest integer, a tie to the even one.\<close>

definition round_half_even :: "real \<Rightarrow> int" where
  "round_half_even x =
     (if x - of_int \<lfloor>x\<rfloor> < 1 / 2 then \<lfloor>x\<rfloor>
      else if 1 / 2 < x - of_int \<lfloor>x\<rfloor> then \<lfloor>x\<rfloor> + 1
      else if even \<lfloor>x\<rfloor> then \<lfloor>x\<rfloor>
      else \<lfloor>x\<rfloor> + 1)"

text \<open>
  The float32 value of a real result: rounded to 24 significant bits, to a multiple of
  \<open>2^-149\<close> below the normal range, and to an infinity from \<open>2^128\<close> on. With
  \<open>ftz\<close> a result below the normal range is flushed to zero, as TensorFlow's kernels do
  on some devices; the properties below hold in both modes.
\<close>

definition round32 :: "bool \<Rightarrow> real \<Rightarrow> fval" where
  "round32 ftz x =
     (if x = 0 then Finite 0
      else
        let e = max (\<lfloor>log 2 \<bar>x\<bar>\<rfloor> - 23) (- 149);
            y = of_int (round_half_even (x / 2 powr of_int e)) * 2 powr of_int e
        in if 2 ^ 128 \<le> \<bar>y\<bar> then (if 0 < x then PosInf else NegInf)
           else if ftz \<and> \<bar>y\<bar> < 2 powr (- 126) then Finite 0
           else Finite y)"

text \<open>Comparison: false as soon as one side is NaN.\<close>

fun fle :: "fval \<Rightarrow> fval \<Rightarrow> bool" where
  "fle NaN b = False"
| "fle a NaN = False"
| "fle NegInf b = True"
| "fle a PosInf = True"
| "fle (Finite a) (Finite b) = (a \<le> b)"
| "fle a b = False"

fun flt :: "fval \<Rightarrow> fval \<Rightarrow> bool" where
  "flt NaN b = False"
| "flt a NaN = False"
| "flt PosInf b = False"
| "flt a NegInf = False"
| "flt (Finite a) (Finite b) = (a < b)"
| "flt a b = True"

text \<open>Addition and multiplication: NaN for \<open>\<infinity> - \<infinity>\<close> and \<open>\<infinity> * 0\<close>, and of a NaN.\<close>

definition fadd :: "bool \<Rightarrow> fval \<Rightarrow> fval \<Rightarrow> fval" where
  "fadd ftz a b =
     (if a = NaN \<or> b = NaN then NaN
      else if (a = PosInf \<and> b = NegInf) \<or> (a = NegInf \<and> b = PosInf) then NaN
      else if a = PosInf \<or> b = PosInf then PosInf
      else if a = NegInf \<or> b = NegInf then NegInf
      else round32 ftz (number a + number b))"

definition fmul :: "bool \<Rightarrow> fval \<Rightarrow> fval \<Rightarrow> fval" where
  "fmul ftz a b =
     (if a = NaN \<or> b = NaN then NaN
      else if a = Finite 0 \<and> (b = PosInf \<or> b = NegInf) then NaN
      else if b = Finite 0 \<and> (a = PosInf \<or> a = NegInf) then NaN
      else if a = PosInf \<or> a = NegInf \<or> b = PosInf \<or> b = NegInf
        then (if flt (Finite 0) a = flt (Finite 0) b then PosInf else NegInf)
      else round32 ftz (number a * number b))"

text \<open>\<^verbatim>\<open>tf.minimum\<close> and \<^verbatim>\<open>tf.maximum\<close> hand a NaN on.\<close>

definition minimum :: "fval \<Rightarrow> fval \<Rightarrow> fval" where
  "minimum a b = (if a = NaN \<or> b = NaN then NaN else if fle a b then a else b)"

definition maximum :: "fval \<Rightarrow> fval \<Rightarrow> fval" where
  "maximum a b = (if a = NaN \<or> b = NaN then NaN else if fle a b then b else a)"

subsection \<open>Continuous actor: the action of \<open>build_networks\<close>\<close>

text \<open>
  \<^verbatim>\<open>tf.contrib.layers.fully_connected\<close> with one output and no activation: the sum of
  the products of the inputs with the weights, plus a bias.
\<close>

definition fully_connected :: "bool \<Rightarrow> fval list \<Rightarrow> fval \<Rightarrow> fval list \<Rightarrow> fval" where
  "fully_connected ftz weights bias inputs =
     fadd ftz (foldl (fadd ftz) (Finite 0) (map2 (fmul ftz) inputs weights)) bias"

text \<open>
  \<^verbatim>\<open>tf.nn.softplus\<close> computes \<open>log (exp x + 1)\<close>: the value rounded to float32, which is
  zero for a large negative \<open>x\<close>.
\<close>

fun softplus :: "bool \<Rightarrow> fval \<Rightarrow> fval" where
  "softplus ftz NaN = NaN"
| "softplus ftz NegInf = Finite 0"
| "softplus ftz PosInf = PosInf"
| "softplus ftz (Finite x) = round32 ftz (ln (exp x + 1))"

text \<open>\<^verbatim>\<open>sigma = tf.nn.softplus(sigma) + 1e-5\<close>, the constant as a float32 value.\<close>

definition sigma :: "bool \<Rightarrow> fval \<Rightarrow> fval" where
  "sigma ftz logit = fadd ftz (softplus ftz logit) (round32 ftz (1 / 100000))"

text \<open>
  \<^verbatim>\<open>self.normal_dist.sample_n(1)\<close>: one draw, a draw \<open>noise\<close> of the standard normal
  distribution times the scale plus the location; the result has shape [1].
\<close>

definition sample_n_1 :: "bool \<Rightarrow> fval \<Rightarrow> fval \<Rightarrow> fval \<Rightarrow> fval list" where
  "sample_n_1 ftz mu scale noise = [fadd ftz (fmul ftz noise scale) mu]"

text \<open>
  \<^verbatim>\<open>tf.clip_by_value(t, clip_value_min, clip_value_max)\<close> takes the minimum with
  \<open>clip_value_max\<close> first and the maximum with \<open>clip_value_min\<close> after.
\<close>

definition clip_by_value :: "fval list \<Rightarrow> fval \<Rightarrow> fval \<Rightarrow> fval list" where
  "clip_by_value t clip_value_min clip_value_max =
     map (\<lambda>v. maximum (minimum v clip_value_max) clip_value_min) t"

text \<open>
  The variables of the two layers of the continuous actor; both layers start with zero
  weights and a zero bias.
\<close>

record actor_variables =
  mu_weights :: "fval list"
  mu_bias :: fval
  sigma_weights :: "fval list"
  sigma_bias :: fval

definition initial_variables :: "nat \<Rightarrow> actor_variables" where
  "initial_variables n =
     \<lparr> mu_weights = replicate n (Finite 0), mu_bias = Finite 0,
       sigma_weights = replicate n (Finite 0), sigma_bias = Finite 0 \<rparr>"

text \<open>The standard deviation of the policy for a state, and the draw before clipping.\<close>

definition A2CContinuous_sigma :: "bool \<Rightarrow> actor_variables \<Rightarrow> fval list \<Rightarrow> fval" where
  "A2CContinuous_sigma ftz vars input_state =
     sigma ftz (fully_connected ftz (sigma_weights vars) (sigma_bias vars) input_state)"

definition A2CContinuous_sample ::
  "bool \<Rightarrow> actor_variables \<Rightarrow> fval list \<Rightarrow> fval \<Rightarrow> fval list" where
  "A2CContinuous_sample ftz vars input_state noise =
     (let mu = fully_connected ftz (mu_weights vars) (mu_bias vars) input_state;
          sd = A2CContinuous_sigma ftz vars input_state
      in sample_n_1 ftz mu sd noise)"

text \<open>
  \<^verbatim>\<open>self.action\<close> of \<open>A2CContinuous.build_networks\<close>; \<open>low\<close> and \<open>high\<close> are
  \<^verbatim>\<open>self.action_space.low[0]\<close> and \<^verbatim>\<open>self.action_space.high[0]\<close>.
\<close>

definition A2CContinuous_action ::
  "bool \<Rightarrow> actor_variables \<Rightarrow> fval \<Rightarrow> fval \<Rightarrow> fval list \<Rightarrow> fval \<Rightarrow> fval list" where
  "A2CContinuous_action ftz vars low high input_state noise =
     clip_by_value (A2CContinuous_sample ftz vars input_state noise) low high"

definition A2CContinuous_choose_action ::
  "bool \<Rightarrow> actor_variables \<Rightarrow> fval \<Rightarrow> fval \<Rightarrow> fval list \<Rightarrow> fval \<Rightarrow> fval list" where
  "A2CContinuous_choose_action ftz vars low high st noise =
     A2CContinuous_action ftz vars low high st noise"

subsection \<open>The entry point\<close>

text \<open>The parsed command line: the two positional arguments.\<close>

record args =
  environment :: string
  monitor_path :: string

text \<open>The kinds of action space \<open>main\<close> tells apart.\<close>

datatype space = Discrete int | Box "real list" "real list" | Other_space

text \<open>
  A learner object, as far as \<open>main\<close> and \<open>learn\<close> use it: its field \<^verbatim>\<open>env\<close>, its
  configuration, \<^verbatim>\<open>nA\<close> for the discrete learner, and its methods and collaborators,
  which depend on the environment the object holds when they are called.
\<close>

datatype ('w, 'env, 's, 'a, 'r) agent =
    A2CDiscrete 'env int config "'env \<Rightarrow> ('w, 's, int, real list list, 'r) learner_ops"
  | A2CContinuous 'env config "'env \<Rightarrow> ('w, 's, 'a, 'a list, 'r) learner_ops"

text \<open>
  What \<open>main\<close> calls outside the file: the argument parser, \<^verbatim>\<open>gym.make\<close>, the
  environment's action space and step limit, the rest of the two constructors (the base
  class, the networks, the session and the summary writer), and \<^verbatim>\<open>wrappers.Monitor\<close>.
\<close>

record ('w, 'env, 's, 'a, 'r) main_ops =
  parse_args :: "'w \<Rightarrow> (error + args) \<times> 'w"
  gym_make :: "string \<Rightarrow> 'w \<Rightarrow> (error + 'env) \<times> 'w"
  action_space :: "'env \<Rightarrow> space"
  max_episode_steps :: "'env \<Rightarrow> int option"
  init_discrete ::
    "'env \<Rightarrow> string \<Rightarrow> 'w
       \<Rightarrow> (error + ('env \<Rightarrow> ('w, 's, int, real list list, 'r) learner_ops)) \<times> 'w"
  init_continuous ::
    "'env \<Rightarrow> string \<Rightarrow> 'w
       \<Rightarrow> (error + ('env \<Rightarrow> ('w, 's, 'a, 'a list, 'r) learner_ops)) \<times> 'w"
  Monitor :: "'env \<Rightarrow> string \<Rightarrow> 'w \<Rightarrow> (error + 'env) \<times> 'w"

text \<open>
  How a call of \<open>main\<close> ends: it returns, it leaves through \<^verbatim>\<open>sys.exit()\<close>, or an
  exception leaves it uncaught.
\<close>

datatype outcome = Returned | Exited | Uncaught error

text \<open>
  The constructors. \<open>A2CDiscrete.__init__\<close> reads \<^verbatim>\<open>env.action_space.n\<close>;
  \<open>A2C.__init__\<close> sets the default configuration (\<open>main\<close> passes no override).
\<close>

definition new_A2CDiscrete ::
  "('w, 'env, 's, 'a, 'r) main_ops \<Rightarrow> 'env \<Rightarrow> int \<Rightarrow> string \<Rightarrow> 'w
     \<Rightarrow> (error + ('w, 'env, 's, 'a, 'r) agent) \<times> 'w" where
  "new_A2CDiscrete ops env n monitor_dir =
     and_then (init_discrete ops env monitor_dir) (\<lambda>methods.
       ret (A2CDiscrete env n (default_config (max_episode_steps ops env)) methods))"

definition new_A2CContinuous ::
  "('w, 'env, 's, 'a, 'r) main_ops \<Rightarrow> 'env \<Rightarrow> string \<Rightarrow> 'w
     \<Rightarrow> (error + ('w, 'env, 's, 'a, 'r) agent) \<times> 'w" where
  "new_A2CContinuous ops env monitor_dir =
     and_then (init_continuous ops env monitor_dir) (\<lambda>methods.
       ret (A2CContinuous env (default_config (max_episode_steps ops env)) methods))"

text \<open>\<^verbatim>\<open>agent.env = wrappers.Monitor(agent.env, args.monitor_path, force=True)\<close>.\<close>

definition wrap_env ::
  "('w, 'env, 's, 'a, 'r) main_ops \<Rightarrow> ('w, 'env, 's, 'a, 'r) agent \<Rightarrow> string \<Rightarrow> 'w
     \<Rightarrow> (error + ('w, 'env, 's, 'a, 'r) agent) \<times> 'w" where
  "wrap_env ops ag path =
     (case ag of
        A2CDiscrete env n cfg methods \<Rightarrow>
          and_then (Monitor ops env path) (\<lambda>env'. ret (A2CDiscrete env' n cfg methods))
      | A2CContinuous env cfg methods \<Rightarrow>
          and_then (Monitor ops env path) (\<lambda>env'. ret (A2CContinuous env' cfg methods)))"

text \<open>\<^verbatim>\<open>agent.learn()\<close>: the method of the object's class, run on a fresh log.\<close>

definition agent_learn ::
  "('w, 'env, 's, 'a, 'r) agent \<Rightarrow> 'w \<Rightarrow> (error + unit) \<times> 'w" where
  "agent_learn ag w =
     (case ag of
        A2CDiscrete env n cfg methods \<Rightarrow>
          (case A2C_learn (methods env) cfg n (w, []) of (r, (w', evs)) \<Rightarrow> (r, w'))
      | A2CContinuous env cfg methods \<Rightarrow>
          (case A2CContinuous_learn (methods env) cfg (w, []) of (r, (w', evs)) \<Rightarrow> (r, w')))"

text \<open>The choice of the learner by the kind of the action space.\<close>

definition make_agent ::
  "('w, 'env, 's, 'a, 'r) main_ops \<Rightarrow> 'env \<Rightarrow> string \<Rightarrow> 'w
     \<Rightarrow> (error + ('w, 'env, 's, 'a, 'r) agent) \<times> 'w" where
  "make_agent ops env path w =
     (case action_space ops env of
        Discrete n \<Rightarrow> new_A2CDiscrete ops env n path w
      | Box low high \<Rightarrow> new_A2CContinuous ops env path w
      | Other_space \<Rightarrow> (Inl NotImplementedError, w))"

definition main :: "('w, 'env, 's, 'a, 'r) main_ops \<Rightarrow> 'w \<Rightarrow> outcome \<times> 'w" where
  "main ops w =
     (case parse_args ops w of
        (Inl e, w1) \<Rightarrow> (Exited, w1)
      | (Inr a, w1) \<Rightarrow>
          (case gym_make ops (environment a) w1 of
             (Inl e, w2) \<Rightarrow> (Uncaught e, w2)
           | (Inr env, w2) \<Rightarrow>
               (case make_agent ops env (monitor_path a) w2 of
                  (Inl e, w3) \<Rightarrow> (Uncaught e, w3)
                | (Inr ag, w3) \<Rightarrow>
                    (case and_then (wrap_env ops ag (monitor_path a)) agent_learn w3 of
                       (Inl e, w4) \<Rightarrow>
                         (if e = KeyboardInterrupt then Returned else Uncaught e, w4)
                     | (Inr u, w4) \<Rightarrow> (Returned, w4)))))"

text \<open>
  An exception \<open>e\<close> was raised by one of the external calls of the learner, and that call
  left the world \<open>w'\<close>.
\<close>

definition raised_by_call :: "('w, 's, 'a, 'm, 'r) learner_ops \<Rightarrow> error \<Rightarrow> 'w \<Rightarrow> bool" where
  "raised_by_call ops e w' \<longleftrightarrow>
     (\<exists>w. get_trajectories ops w = (Inl e, w')) \<or>
     (\<exists>s w. sess_run_critic_value ops s w = (Inl e, w')) \<or>
     (\<exists>fd w. sess_run_train ops fd w = (Inl e, w')) \<or>
     (\<exists>r i w. add_summary ops r i w = (Inl e, w')) \<or>
     (\<exists>w. flush ops w = (Inl e, w')) \<or>
     (\<exists>i rs ls n w. print_iteration_stats ops i rs ls n w = (Inl e, w'))"

subsection \<open>An entry point for the examples\<close>

text \<open>
  The place where the user's interrupt arrives in an example run of \<open>main\<close>: in one of the
  calls that \<open>main\<close> makes itself, or in \<open>learn\<close> (there, in the second collection).
\<close>

datatype phase = In_parse_args | In_gym_make | In_constructor | In_Monitor | In_learn

definition example_main_ops :: "phase \<Rightarrow> (nat, unit, nat, real, unit) main_ops" where
  "example_main_ops interrupted =
     \<lparr> parse_args =
         (\<lambda>w. if interrupted = In_parse_args then (Inl KeyboardInterrupt, w)
              else (Inr \<lparr> environment = ''CartPole-v0'', monitor_path = ''monitor'' \<rparr>, w)),
       gym_make =
         (\<lambda>name w. if interrupted = In_gym_make then (Inl KeyboardInterrupt, w)
              else (Inr (), w)),
       action_space = (\<lambda>env. Discrete 3),
       max_episode_steps = (\<lambda>env. Some 200),
       init_discrete =
         (\<lambda>env dir w. if interrupted = In_constructor then (Inl KeyboardInterrupt, w)
              else (Inr (\<lambda>env. example_ops discrete_trajectories
                            (if interrupted = In_learn then Some (Suc 0) else None)), w)),
       init_continuous =
         (\<lambda>env dir w. (Inr (\<lambda>env. example_ops continuous_trajectories None), w)),
       Monitor =
         (\<lambda>env path w. if interrupted = In_Monitor then (Inl KeyboardInterrupt, w)
              else (Inr env, w)) \<rparr>"

section \<open>Properties\<close>

subsection \<open>Properties of the return computation\<close>

lemma length_discount_rewards: "length (discount_rewards r g) = length r"
  by (simp add: discount_rewards_def)

lemma nth_discount_rewards:
  "t < length r \<Longrightarrow> discount_rewards r g ! t = discounted_return r g t"
  by (simp add: discount_rewards_def)

lemma discounted_return_step:
  assumes "t < length r"
  shows "discounted_return r g t = r ! t + g * discounted_return r g (Suc t)"
proof -
  have "[t..<length r] = t # [Suc t..<length r]"
    using assms by (simp add: upt_conv_Cons)
  then have "discounted_return r g t
      = r ! t + (\<Sum>k\<leftarrow>[Suc t..<length r]. g ^ (k - t) * r ! k)"
    by (simp add: discounted_return_def)
  also have "(\<Sum>k\<leftarrow>[Suc t..<length r]. g ^ (k - t) * r ! k)
      = (\<Sum>k\<leftarrow>[Suc t..<length r]. g * (g ^ (k - Suc t) * r ! k))"
  proof (rule arg_cong [where f = sum_list], rule map_cong [OF refl])
    fix k assume "k \<in> set [Suc t..<length r]"
    then have "k - t = Suc (k - Suc t)" by auto
    then show "g ^ (k - t) * r ! k = g * (g ^ (k - Suc t) * r ! k)" by simp
  qed
  also have "\<dots> = g * discounted_return r g (Suc t)"
    by (simp add: discounted_return_def sum_list_const_mult)
  finally show ?thesis .
qed

lemma discounted_return_end: "length r \<le> t \<Longrightarrow> discounted_return r g t = 0"
  by (simp add: discounted_return_def)

text \<open>
  C1. The discounted returns of a trajectory have the length of its reward sequence; the
  last return is the last reward, and every earlier return is its reward plus the discount
  factor times the next return. Each return is exactly the decayed suffix sum of the
  rewards: nothing is clipped or normalised. This holds for every discount factor, so in
  particular for those in (0, 1].
\<close>

theorem discount_rewards_recurrence:
  "length (discount_rewards r g) = length r \<and>
   (r \<noteq> [] \<longrightarrow> discount_rewards r g ! (length r - 1) = r ! (length r - 1)) \<and>
   (\<forall>t. t + 1 < length r \<longrightarrow>
      discount_rewards r g ! t = r ! t + g * discount_rewards r g ! (t + 1)) \<and>
   (\<forall>t < length r.
      discount_rewards r g ! t = (\<Sum>k\<leftarrow>[t..<length r]. g ^ (k - t) * r ! k))"
proof (intro conjI allI impI)
  show "length (discount_rewards r g) = length r"
    by (rule length_discount_rewards)
next
  assume "r \<noteq> []"
  then have last: "length r - 1 < length r" by simp
  have "discounted_return r g (length r - 1)
      = r ! (length r - 1) + g * discounted_return r g (Suc (length r - 1))"
    by (rule discounted_return_step [OF last])
  also have "discounted_return r g (Suc (length r - 1)) = 0"
    by (rule discounted_return_end) simp
  finally show "discount_rewards r g ! (length r - 1) = r ! (length r - 1)"
    using last by (simp add: nth_discount_rewards)
next
  fix t assume "t + 1 < length r"
  then show "discount_rewards r g ! t = r ! t + g * discount_rewards r g ! (t + 1)"
    using discounted_return_step [of t r g] by (simp add: nth_discount_rewards)
next
  fix t assume "t < length r"
  then show "discount_rewards r g ! t = (\<Sum>k\<leftarrow>[t..<length r]. g ^ (k - t) * r ! k)"
    by (simp add: nth_discount_rewards discounted_return_def)
qed

theorem discount_rewards_recurrence_witness:
  "discount_rewards [1, 2, 4] (1 / 2) = [3, 4, 4] \<and>
   length (discount_rewards [1, 2, 4] (1 / 2)) = 3 \<and>
   discount_rewards [1, 2, 4] (1 / 2) ! 2 = 4 \<and>
   discount_rewards [1, 2, 4] (1 / 2) ! 0
     = 1 + 1 / 2 * discount_rewards [1, 2, 4] (1 / 2) ! 1"
  using discount_rewards_recurrence [of "[1, 2, 4]" "1 / 2"]
  by (simp add: discount_rewards_def discounted_return_def upt_rec)

subsection \<open>Properties of the discrete actor\<close>

lemma possible_actions_upt: "possible_actions nA = map int [0..<nat nA]"
  by (simp add: possible_actions_def list_eq_iff_nth_eq)

lemma sum_list_indicator:
  assumes "a < length p"
  shows "(\<Sum>(x, y)\<leftarrow>zip p (map (\<lambda>j. if j = a then 1 else 0) [0..<length p]). x * y) = (p ! a :: real)"
proof -
  let ?f = "\<lambda>j. if j = a then 1 else (0::real)"
  have "(\<Sum>(x, y)\<leftarrow>zip p (map ?f [0..<length p]). x * y)
      = (\<Sum>j\<leftarrow>[0..<length p]. p ! j * ?f j)"
  proof -
    have "zip p (map ?f [0..<length p]) = map (\<lambda>j. (p ! j, ?f j)) [0..<length p]"
      by (rule nth_equalityI) simp_all
    then show ?thesis by (simp add: comp_def)
  qed
  also have "\<dots> = (\<Sum>j = 0..<length p. p ! j * ?f j)"
    by (simp add: interv_sum_list_conv_sum_set_nat)
  also have "\<dots> = (\<Sum>j \<in> {0..<length p}. if j = a then p ! j else 0)"
    by (rule sum.cong) auto
  also have "\<dots> = p ! a"
    using assms by (simp add: sum.delta)
  finally show ?thesis .
qed

lemma one_hot_row:
  assumes "0 \<le> a" "a < nA"
  shows "map (\<lambda>p. if p = a then 1 else (0::real)) (possible_actions nA)
       = map (\<lambda>j. if j = nat a then 1 else 0) [0..<nat nA]"
  using assms by (auto simp: possible_actions_upt)


lemma one_hot_dot:
  assumes "0 \<le> a" "a < nA" "length (p :: real list) = nat nA"
  shows "sum_list (map2 (*) p (map (\<lambda>q. if q = a then 1 else 0) (possible_actions nA)))
       = p ! nat a"
proof -
  have "nat a < length p" using assms by simp
  from sum_list_indicator [OF this] show ?thesis
    using assms by (simp add: one_hot_row)
qed

text \<open>
  C10. When every collected action is an integer from 0 up to, and not including, \<open>nA\<close>,
  the encoding of the concatenated actions has one row per action; each row has \<open>nA\<close>
  entries, the entry at the index of the action is 1 and every other entry is 0. So the
  sum over each row of the products with the probabilities of the policy is the
  probability of the action taken.
\<close>

theorem one_hot_selects_taken_probability:
  assumes "\<forall>a \<in> set all_action. 0 \<le> a \<and> a < nA"
  shows "length (one_hot_actions (possible_actions nA) all_action) = length all_action \<and>
         (\<forall>i < length all_action.
            length (one_hot_actions (possible_actions nA) all_action ! i) = nat nA \<and>
            one_hot_actions (possible_actions nA) all_action ! i ! nat (all_action ! i) = 1 \<and>
            (\<forall>j < nat nA. j \<noteq> nat (all_action ! i) \<longrightarrow>
               one_hot_actions (possible_actions nA) all_action ! i ! j = 0)) \<and>
         (length prob_na = length all_action \<and> (\<forall>p \<in> set prob_na. length p = nat nA) \<longrightarrow>
            good_probabilities prob_na (one_hot_actions (possible_actions nA) all_action)
              = map2 (\<lambda>p a. p ! nat a) prob_na all_action)"
proof (intro conjI allI impI)
  show "length (one_hot_actions (possible_actions nA) all_action) = length all_action"
    by (simp add: one_hot_actions_def)
next
  fix i assume i: "i < length all_action"
  then show "length (one_hot_actions (possible_actions nA) all_action ! i) = nat nA"
    by (simp add: one_hot_actions_def possible_actions_upt)
next
  fix i assume i: "i < length all_action"
  then have "0 \<le> all_action ! i \<and> all_action ! i < nA" using assms by simp
  then show "one_hot_actions (possible_actions nA) all_action ! i ! nat (all_action ! i) = 1"
    using i by (simp add: one_hot_actions_def one_hot_row)
next
  fix i j assume i: "i < length all_action" and j: "j < nat nA" "j \<noteq> nat (all_action ! i)"
  from i have "0 \<le> all_action ! i \<and> all_action ! i < nA" using assms by simp
  then show "one_hot_actions (possible_actions nA) all_action ! i ! j = 0"
    using i j by (simp add: one_hot_actions_def one_hot_row)
next
  assume shape: "length prob_na = length all_action \<and> (\<forall>p \<in> set prob_na. length p = nat nA)"
  show "good_probabilities prob_na (one_hot_actions (possible_actions nA) all_action)
      = map2 (\<lambda>p a. p ! nat a) prob_na all_action"
  proof (rule nth_equalityI)
    show "length (good_probabilities prob_na (one_hot_actions (possible_actions nA) all_action))
        = length (map2 (\<lambda>p a. p ! nat a) prob_na all_action)"
      by (simp add: good_probabilities_def one_hot_actions_def)
  next
    fix i
    assume "i < length (good_probabilities prob_na (one_hot_actions (possible_actions nA) all_action))"
    then have i: "i < length all_action" "i < length prob_na"
      using shape by (simp_all add: good_probabilities_def one_hot_actions_def)
    then have a: "0 \<le> all_action ! i" "all_action ! i < nA" using assms by simp_all
    have p: "length (prob_na ! i) = nat nA" using shape i by simp
    show "good_probabilities prob_na (one_hot_actions (possible_actions nA) all_action) ! i
        = map2 (\<lambda>p a. p ! nat a) prob_na all_action ! i"
      using i one_hot_dot [OF a p] by (simp add: good_probabilities_def one_hot_actions_def)
  qed
qed

theorem one_hot_selects_taken_probability_witness:
  "one_hot_actions (possible_actions 3) [1, 0, 2] = [[0, 1, 0], [1, 0, 0], [0, 0, 1]] \<and>
   good_probabilities [[1/2, 1/4, 1/4], [1/5, 2/5, 2/5], [1/10, 1/5, 7/10]]
       (one_hot_actions (possible_actions 3) [1, 0, 2]) = [1/4, 1/5, 7/10]"
  using one_hot_selects_taken_probability [of "[1, 0, 2]" 3
        "[[1/2, 1/4, 1/4], [1/5, 2/5, 2/5], [1/10, 1/5, 7/10]]"]
  by (simp add: one_hot_actions_def possible_actions_def upto_rec1 good_probabilities_def)

lemma good_probabilities_nonneg:
  assumes "\<forall>p \<in> set prob_na. \<forall>x \<in> set p. 0 \<le> x"
    and "\<forall>a \<in> set taken. \<forall>x \<in> set a. 0 \<le> x"
  shows "\<forall>g \<in> set (good_probabilities prob_na taken). 0 \<le> g"
proof
  fix g assume "g \<in> set (good_probabilities prob_na taken)"
  then obtain p a where pa: "(p, a) \<in> set (zip prob_na taken)"
    and g: "g = sum_list (map2 (*) p a)"
    by (auto simp: good_probabilities_def)
  from pa have p: "p \<in> set prob_na" and a: "a \<in> set taken"
    by (auto dest: set_zip_leftD set_zip_rightD)
  have "0 \<le> sum_list (map2 (*) p a)"
  proof (rule sum_list_nonneg)
    fix z assume "z \<in> set (map2 (*) p a)"
    then obtain x y where xy: "(x, y) \<in> set (zip p a)" and z: "z = x * y" by auto
    from xy have "x \<in> set p" "y \<in> set a"
      by (auto dest: set_zip_leftD set_zip_rightD)
    with p a assms have "0 \<le> x" "0 \<le> y" by auto
    then show "0 \<le> z" unfolding z by simp
  qed
  then show "0 \<le> g" unfolding g .
qed

lemma one_hot_actions_nonneg:
  "\<forall>a \<in> set (one_hot_actions possible all_action). \<forall>x \<in> set a. 0 \<le> x"
  by (auto simp: one_hot_actions_def)

text \<open>
  C5. In the loss of the discrete actor, a probability that is exactly zero is replaced by
  1e-30 before the logarithm, every other probability is passed unchanged, and so the
  argument of the logarithm is strictly positive whenever the probability is not
  negative. The replacement is a value, not an exception: the eligibility of the step is
  the logarithm of that argument times the advantage. With the encoded actions of \<open>learn\<close>
  and any rows of non-negative probabilities, every argument of the logarithm is positive.
\<close>

theorem zero_probability_floored:
  "length (log_argument good) = length good \<and>
   (\<forall>i < length good.
      (good ! i = 0 \<longrightarrow> log_argument good ! i = 1 / 10 ^ 30) \<and>
      (good ! i \<noteq> 0 \<longrightarrow> log_argument good ! i = good ! i) \<and>
      (0 \<le> good ! i \<longrightarrow> 0 < log_argument good ! i)) \<and>
   (\<forall>i. i < length good \<and> i < length rewards_in \<and> i < length feedback_in \<longrightarrow>
      eligibility good rewards_in feedback_in ! i
        = ln (log_argument good ! i) * (rewards_in ! i - feedback_in ! i)) \<and>
   ((\<forall>p \<in> set prob_na. \<forall>x \<in> set p. 0 \<le> x) \<longrightarrow>
      (\<forall>l \<in> set (log_argument
          (good_probabilities prob_na (one_hot_actions possible all_action))). 0 < l))"
proof -
  have "0 < l"
    if "\<forall>p \<in> set prob_na. \<forall>x \<in> set p. 0 \<le> x"
      and "l \<in> set (log_argument
          (good_probabilities prob_na (one_hot_actions possible all_action)))" for l
  proof -
    from that(2) obtain g where
      g: "g \<in> set (good_probabilities prob_na (one_hot_actions possible all_action))"
      and l: "l = (if g = 0 then 1 / 10 ^ 30 else g)"
      by (auto simp: log_argument_def)
    from good_probabilities_nonneg [OF that(1) one_hot_actions_nonneg] g have "0 \<le> g"
      by blast
    then show ?thesis unfolding l by simp
  qed
  then show ?thesis
    by (auto simp: log_argument_def eligibility_def)
qed

theorem zero_probability_floored_witness:
  "log_argument [0, 1 / 4] = [1 / 10 ^ 30, 1 / 4] \<and>
   0 < log_argument [0, 1 / 4] ! 0 \<and>
   eligibility [0, 1 / 4] [3, 1] [1, 1] ! 0 = ln (1 / 10 ^ 30) * 2 \<and>
   log_argument (good_probabilities [[0, 1], [1 / 4, 3 / 4]]
      (one_hot_actions (possible_actions 2) [0, 0])) = [1 / 10 ^ 30, 1 / 4]"
  using zero_probability_floored [of "[0, 1 / 4]" "[3, 1]" "[1, 1]"]
  by (simp add: log_argument_def good_probabilities_def one_hot_actions_def
        possible_actions_def upto_rec1)

subsection \<open>Properties of the float32 arithmetic\<close>

lemma round_half_even_ge_floor: "\<lfloor>x\<rfloor> \<le> round_half_even x"
  by (simp add: round_half_even_def)

lemma round_half_even_ge:
  assumes "of_int n \<le> x"
  shows "n \<le> round_half_even x"
proof -
  from assms have "n \<le> \<lfloor>x\<rfloor>" by (simp add: le_floor_iff)
  also have "\<dots> \<le> round_half_even x" by (rule round_half_even_ge_floor)
  finally show ?thesis .
qed

lemma round_half_even_nonneg: "0 \<le> x \<Longrightarrow> 0 \<le> round_half_even x"
  using round_half_even_ge [of 0 x] by simp

lemma round_half_even_of_int: "round_half_even (of_int n) = n"
  by (simp add: round_half_even_def)

lemma round32_positive:
  assumes "0 < z"
  shows "round32 ftz z = PosInf \<or> (\<exists>y\<ge>0. round32 ftz z = Finite y)"
proof -
  let ?e = "max (\<lfloor>log 2 \<bar>z\<bar>\<rfloor> - 23) (- 149)"
  let ?y = "real_of_int (round_half_even (z / 2 powr of_int ?e)) * 2 powr of_int ?e"
  have "0 \<le> z / 2 powr of_int ?e" using assms by simp
  then have "0 \<le> round_half_even (z / 2 powr of_int ?e)"
    by (rule round_half_even_nonneg)
  then have "0 \<le> ?y" by simp
  with assms show ?thesis
    by (auto simp: round32_def Let_def)
qed

lemma floor_log2_bounds:
  assumes "0 < z"
  shows "2 powr of_int \<lfloor>log 2 z\<rfloor> \<le> z" and "z < 2 powr of_int (\<lfloor>log 2 z\<rfloor> + 1)"
  using floor_log_eq_powr_iff [of z 2 "\<lfloor>log 2 z\<rfloor>"] assms by simp_all

lemma round32_above_floor:
  assumes "10995116 / 2 ^ 40 \<le> z"
  shows "fle (Finite (10995116 / 2 ^ 40)) (round32 ftz z)"
proof -
  let ?c = "10995116 / 2 ^ 40 :: real"
  have zpos: "0 < z" using assms by (rule less_le_trans [rotated]) simp
  define k where "k = \<lfloor>log 2 z\<rfloor>"
  have k_low: "2 powr of_int k \<le> z" and k_up: "z < 2 powr of_int (k + 1)"
    unfolding k_def using floor_log2_bounds [OF zpos] by simp_all
  have k17: "- 17 \<le> k"
  proof (rule ccontr)
    assume "\<not> - 17 \<le> k"
    then have "of_int (k + 1) \<le> (- 17 :: real)" by simp
    then have "2 powr of_int (k + 1) \<le> (2 :: real) powr (- 17)"
      by (simp only: powr_le_cancel_iff [of 2] one_less_numeral_iff semiring_norm)
    also have "\<dots> \<le> ?c" by (simp add: powr_neg_numeral)
    finally show False using k_up assms by simp
  qed
  define q where "q = z / 2 powr of_int (k - 23)"
  define y where "y = real_of_int (round_half_even q) * 2 powr of_int (k - 23)"
  have yc: "?c \<le> y"
  proof (cases "k = - 17")
    case True
    then have q: "q = z * 2 ^ 40" by (simp add: q_def powr_neg_numeral)
    have "real_of_int 10995116 \<le> q" unfolding q using assms by simp
    then have "10995116 \<le> round_half_even q" by (rule round_half_even_ge)
    then have "(10995116 :: real) \<le> real_of_int (round_half_even q)" by simp
    then show ?thesis unfolding y_def True by (simp add: powr_neg_numeral)
  next
    case False
    with k17 have k16: "- 16 \<le> k" by simp
    have "(2 :: real) powr of_int k / 2 powr of_int (k - 23)
        = 2 powr (of_int k - of_int (k - 23))"
      by (simp only: powr_diff)
    also have "\<dots> = 2 powr 23" by simp
    finally have "(2 :: real) powr 23 = 2 powr of_int k / 2 powr of_int (k - 23)" by simp
    also have "\<dots> \<le> q" unfolding q_def using k_low by (simp add: divide_right_mono)
    finally have "real_of_int (2 ^ 23) \<le> q" by simp
    then have "2 ^ 23 \<le> round_half_even q" by (rule round_half_even_ge)
    then have "(2 ^ 23 :: real) \<le> real_of_int (round_half_even q)"
      by (metis of_int_le_iff of_int_numeral of_int_power)
    then have "2 ^ 23 * 2 powr of_int (k - 23) \<le> y"
      unfolding y_def by (simp add: mult_right_mono)
    moreover have "2 ^ 23 * 2 powr of_int (k - 23) = (2 :: real) powr of_int k"
    proof -
      have "(2 ^ 23 :: real) * 2 powr of_int (k - 23) = 2 powr 23 * 2 powr of_int (k - 23)"
        by simp
      also have "\<dots> = 2 powr (23 + of_int (k - 23))" by (simp only: powr_add)
      also have "\<dots> = 2 powr of_int k" by simp
      finally show ?thesis .
    qed
    moreover have "(2 :: real) powr (- 16) \<le> 2 powr of_int k"
      using k16 by simp
    moreover have "?c \<le> (2 :: real) powr (- 16)" by (simp add: powr_neg_numeral)
    ultimately show ?thesis by linarith
  qed
  have e: "max (\<lfloor>log 2 \<bar>z\<bar>\<rfloor> - 23) (- 149) = k - 23"
  proof -
    have "\<lfloor>log 2 \<bar>z\<bar>\<rfloor> = k" using zpos by (simp add: k_def)
    moreover have "max (k - 23) (- 149) = k - 23" using k17 by simp
    ultimately show ?thesis by (simp only:)
  qed
  have small: "\<not> \<bar>y\<bar> < 2 powr (- 126)"
  proof -
    have "(2 :: real) powr (- 126) \<le> ?c" by (simp add: powr_neg_numeral)
    with yc show ?thesis by linarith
  qed
  have r: "round32 ftz z =
      (if 2 ^ 128 \<le> \<bar>y\<bar> then PosInf
       else if ftz \<and> \<bar>y\<bar> < 2 powr (- 126) then Finite 0 else Finite y)"
    unfolding round32_def Let_def e y_def q_def using zpos by simp
  show ?thesis
    unfolding r using yc small by simp
qed

lemma round32_tiny:
  assumes "0 < z" "z < 2 powr (- 151)"
  shows "round32 ftz z = Finite 0"
proof -
  define k where "k = \<lfloor>log 2 z\<rfloor>"
  have "2 powr of_int k \<le> z" unfolding k_def using floor_log2_bounds(1) [OF assms(1)] .
  also note assms(2)
  finally have "of_int k < (- 151 :: real)" by simp
  then have k: "k < - 151" by linarith
  have e: "max (\<lfloor>log 2 \<bar>z\<bar>\<rfloor> - 23) (- 149) = - 149"
  proof -
    have "\<lfloor>log 2 \<bar>z\<bar>\<rfloor> = k" using assms(1) by (simp add: k_def)
    moreover have "max (k - 23) (- 149) = - 149" using k by simp
    ultimately show ?thesis by (simp only:)
  qed
  define q where "q = z / 2 powr of_int (- 149)"
  have q: "0 \<le> q" "q < 1 / 4"
  proof -
    show "0 \<le> q" unfolding q_def using assms(1) by simp
    have "q = z * 2 ^ 149" by (simp add: q_def powr_neg_numeral)
    also have "\<dots> < 2 powr (- 151) * 2 ^ 149" using assms(2) by simp
    also have "\<dots> = 1 / 4" by (simp add: powr_neg_numeral)
    finally show "q < 1 / 4" .
  qed
  then have "\<lfloor>q\<rfloor> = 0" by (simp add: floor_eq_iff)
  with q have "round_half_even q = 0" by (simp add: round_half_even_def)
  then show ?thesis
    unfolding round32_def Let_def e q_def using assms(1) by simp
qed

lemma exp_minus_200: "exp (- 200 :: real) \<le> 1 / 2 ^ 200"
proof -
  have "(2 :: real) \<le> exp 1" using exp_ge_add_one_self [of "1 :: real"] by simp
  then have "(2 :: real) ^ 200 \<le> exp 1 ^ 200" by (rule power_mono) simp
  also have "\<dots> = exp (of_nat 200 * 1 :: real)" by (simp only: exp_of_nat_mult)
  also have "\<dots> = exp (200 :: real)" by simp
  finally have "(2 :: real) ^ 200 \<le> exp 200" .
  then have "inverse (exp (200 :: real)) \<le> inverse (2 ^ 200)"
    by (simp only: le_imp_inverse_le zero_less_power zero_less_numeral)
  then show ?thesis by (simp add: exp_minus inverse_eq_divide)
qed

lemma softplus_underflow: "softplus ftz (Finite (- 200)) = Finite 0"
proof -
  let ?z = "ln (exp (- 200) + 1 :: real)"
  have "1 < exp (- 200) + (1 :: real)" by simp
  then have pos: "0 < ?z" by (rule ln_gt_zero)
  have "?z \<le> exp (- 200)"
    using ln_add_one_self_le_self [of "exp (- 200 :: real)"] by (simp add: add.commute)
  also note exp_minus_200
  also have "(1 :: real) / 2 ^ 200 < 2 powr (- 151)" by (simp add: powr_neg_numeral)
  finally have "?z < 2 powr (- 151)" .
  with pos show ?thesis by (simp add: round32_tiny)
qed

lemma floor32:
  "round32 ftz (1 / 100000) = Finite (10995116 / 2 ^ 40)"
  "round32 ftz (10995116 / 2 ^ 40) = Finite (10995116 / 2 ^ 40)"
proof -
  have k: "\<lfloor>log 2 z\<rfloor> = - 17" if "(2 :: real) powr (- 17) \<le> z" "z < 2 powr (- 16)" for z
  proof -
    have "0 < z" using that(1) by (rule less_le_trans [rotated]) simp
    then show ?thesis
      using floor_log_eq_powr_iff [of z 2 "- 17"] that by simp
  qed
  have e: "max (- 17 - 23) (- 149) = (- 40 :: int)" by simp
  have k1: "\<lfloor>log 2 \<bar>1 / 100000 :: real\<bar>\<rfloor> = - 17"
    by (rule k) (simp_all add: powr_neg_numeral)
  have k2: "\<lfloor>log 2 \<bar>10995116 / 2 ^ 40 :: real\<bar>\<rfloor> = - 17"
    by (rule k) (simp_all add: powr_neg_numeral)
  have q1: "round_half_even ((1 / 100000) / 2 powr of_int (- 40)) = 10995116"
  proof -
    have v: "(1 / 100000) / 2 powr of_int (- 40) = (1099511627776 / 100000 :: real)"
      by (simp add: powr_neg_numeral)
    have f: "\<lfloor>1099511627776 / 100000 :: real\<rfloor> = 10995116" by simp
    show ?thesis unfolding v round_half_even_def f by simp
  qed
  have q2: "round_half_even ((10995116 / 2 ^ 40) / 2 powr of_int (- 40)) = 10995116"
  proof -
    have "(10995116 / 2 ^ 40) / 2 powr of_int (- 40) = real_of_int 10995116"
      by (simp add: powr_neg_numeral)
    then show ?thesis by (simp only: round_half_even_of_int)
  qed
  have y: "real_of_int 10995116 * 2 powr of_int (- 40) = 10995116 / 2 ^ 40"
    by (simp add: powr_neg_numeral)
  have big: "\<not> 2 ^ 128 \<le> \<bar>10995116 / 2 ^ 40 :: real\<bar>" by simp
  have small: "\<not> \<bar>10995116 / 2 ^ 40 :: real\<bar> < 2 powr (- 126)"
    by (simp add: powr_neg_numeral)
  have nz: "(1 / 100000 :: real) \<noteq> 0" "(10995116 / 2 ^ 40 :: real) \<noteq> 0" by simp_all
  show "round32 ftz (1 / 100000) = Finite (10995116 / 2 ^ 40)"
    unfolding round32_def Let_def k1 e q1 y using big small nz(1) by (simp only: if_False simp_thms)
  show "round32 ftz (10995116 / 2 ^ 40) = Finite (10995116 / 2 ^ 40)"
    unfolding round32_def Let_def k2 e q2 y using big small nz(2) by (simp only: if_False simp_thms)
qed

lemma round32_representable:
  assumes m: "m \<noteq> 0" "\<bar>m\<bar> < 2 ^ 24" and e: "- 149 \<le> e"
    and big: "\<bar>real_of_int m * 2 powr of_int e\<bar> < 2 ^ 128"
    and small: "2 powr (- 126) \<le> \<bar>real_of_int m * 2 powr of_int e\<bar>"
  shows "round32 ftz (of_int m * 2 powr of_int e) = Finite (of_int m * 2 powr of_int e)"
proof -
  define x where "x = real_of_int m * 2 powr of_int e"
  have xnz: "x \<noteq> 0" using m(1) by (simp add: x_def)
  have ax: "\<bar>x\<bar> = real_of_int \<bar>m\<bar> * 2 powr of_int e"
    by (simp add: x_def abs_mult)
  define k where "k = \<lfloor>log 2 \<bar>x\<bar>\<rfloor>"
  have "2 powr of_int k \<le> \<bar>x\<bar>"
    unfolding k_def using floor_log2_bounds(1) [of "\<bar>x\<bar>"] xnz by simp
  also have "\<bar>x\<bar> < 2 ^ 24 * 2 powr of_int e"
  proof -
    have "real_of_int \<bar>m\<bar> < real_of_int (2 ^ 24)" using m(2) by (simp only: of_int_less_iff)
    then show ?thesis unfolding ax by simp
  qed
  also have "(2 ^ 24 :: real) * 2 powr of_int e = 2 powr (24 + of_int e)"
  proof -
    have "(2 ^ 24 :: real) * 2 powr of_int e = 2 powr 24 * 2 powr of_int e" by simp
    also have "\<dots> = 2 powr (24 + of_int e)" by (simp only: powr_add)
    finally show ?thesis .
  qed
  finally have "real_of_int k < 24 + real_of_int e" by simp
  then have k: "k - 23 \<le> e" by linarith
  define e' where "e' = max (k - 23) (- 149)"
  have e': "e' \<le> e" using k e by (simp add: e'_def)
  define d where "d = nat (e - e')"
  have d: "of_int e = real_of_int e' + real d" using e' by (simp add: d_def)
  have pw: "(2 :: real) powr of_int e = 2 powr of_int e' * 2 ^ d"
    unfolding d by (simp add: powr_add powr_realpow)
  have q: "x / 2 powr of_int e' = real_of_int (m * 2 ^ d)"
    unfolding x_def pw by simp
  have y: "real_of_int (round_half_even (x / 2 powr of_int e')) * 2 powr of_int e' = x"
    unfolding q round_half_even_of_int by (simp add: x_def pw)
  have "round32 ftz x = Finite x"
    unfolding round32_def Let_def k_def [symmetric] e'_def [symmetric] y
    using xnz big small by (simp add: x_def)
  then show ?thesis by (simp only: x_def)
qed

lemma round32_small_int:
  assumes "n \<noteq> 0" "\<bar>n\<bar> < 2 ^ 24"
  shows "round32 ftz (of_int n) = Finite (of_int n)"
proof -
  have "1 \<le> \<bar>n\<bar>" using assms(1) by simp
  then have "(1 :: real) \<le> real_of_int \<bar>n\<bar>" by (simp only: of_int_1_le_iff)
  then have small: "2 powr (- 126) \<le> \<bar>real_of_int n * 2 powr of_int 0\<bar>"
    by (simp add: powr_neg_numeral)
  have "real_of_int \<bar>n\<bar> < real_of_int (2 ^ 24)" using assms(2) by (simp only: of_int_less_iff)
  then have big: "\<bar>real_of_int n * 2 powr of_int 0\<bar> < 2 ^ 128" by simp
  from round32_representable [OF assms _ big small, of ftz] show ?thesis by simp
qed

subsection \<open>Properties of the continuous actor\<close>

lemma softplus_range:
  assumes "x \<noteq> NaN"
  shows "softplus ftz x = PosInf \<or> (\<exists>y\<ge>0. softplus ftz x = Finite y)"
proof (cases x)
  case (Finite r)
  have "1 < exp r + 1" by simp
  then have "0 < ln (exp r + 1)" by (rule ln_gt_zero)
  from round32_positive [OF this, of ftz] show ?thesis by (simp add: Finite)
qed (use assms in auto)

lemma softplus_NaN_iff: "softplus ftz x = NaN \<longleftrightarrow> x = NaN"
  using softplus_range [of x ftz] by (cases "x = NaN") auto

lemma sigma_above_floor:
  assumes "x \<noteq> NaN"
  shows "fle (Finite (10995116 / 2 ^ 40)) (sigma ftz x)"
proof -
  from softplus_range [OF assms, of ftz] show ?thesis
  proof (elim disjE exE conjE)
    assume "softplus ftz x = PosInf"
    then show ?thesis by (simp add: sigma_def floor32 fadd_def)
  next
    fix y :: real assume y: "0 \<le> y" "softplus ftz x = Finite y"
    then have "10995116 / 2 ^ 40 \<le> y + 10995116 / 2 ^ 40" by simp
    from round32_above_floor [OF this, of ftz] show ?thesis
      by (simp add: sigma_def floor32 fadd_def y)
  qed
qed

lemma sigma_NaN: "sigma ftz NaN = NaN"
  by (simp add: sigma_def fadd_def)

lemma flt_zero_above_floor:
  assumes "fle (Finite (10995116 / 2 ^ 40)) s"
  shows "flt (Finite 0) s"
  using assms by (cases s) auto

text \<open>
  C6 as stated fails: for a state with an infinite entry the logit of the zero-initialised
  layer is NaN, and so is the standard deviation, which is then not greater than zero.
\<close>

theorem sigma_nan_counterexample:
  "fully_connected True [Finite 0, Finite 0] (Finite 0) [PosInf, Finite 0] = NaN \<and>
   A2CContinuous_sigma True (initial_variables 2) [PosInf, Finite 0] = NaN \<and>
   \<not> flt (Finite 0) (A2CContinuous_sigma True (initial_variables 2) [PosInf, Finite 0])"
  by (simp add: A2CContinuous_sigma_def initial_variables_def fully_connected_def
        fmul_def fadd_def sigma_def numeral_2_eq_2)

text \<open>
  C6, amended. For every logit that is not NaN, be it finite, also arbitrarily large
  negative where the softplus underflows to zero, or infinite, the standard deviation of
  the continuous actor is strictly greater than zero, and at least the float32 value of
  the floor 1e-5 (which is below 1e-5). The standard deviation is NaN exactly when the
  logit is NaN. This holds with and without flushing to zero.
\<close>

theorem sigma_positive_unless_nan:
  "(x \<noteq> NaN \<longrightarrow>
      flt (Finite 0) (sigma ftz x) \<and> fle (round32 ftz (1 / 100000)) (sigma ftz x)) \<and>
   (sigma ftz x = NaN \<longleftrightarrow> x = NaN) \<and>
   (A2CContinuous_sigma ftz vars st = NaN \<or> flt (Finite 0) (A2CContinuous_sigma ftz vars st))"
proof -
  have pos: "flt (Finite 0) (sigma ftz x) \<and> fle (round32 ftz (1 / 100000)) (sigma ftz x)"
    if "x \<noteq> NaN" for x
    using sigma_above_floor [OF that, of ftz] flt_zero_above_floor [of "sigma ftz x"]
    by (simp add: floor32)
  have nan: "sigma ftz x = NaN \<longleftrightarrow> x = NaN" for x
  proof (cases "x = NaN")
    case True
    then show ?thesis by (simp add: sigma_NaN)
  next
    case False
    from pos [OF False] show ?thesis using False by (cases "sigma ftz x") auto
  qed
  have "A2CContinuous_sigma ftz vars st = NaN \<or> flt (Finite 0) (A2CContinuous_sigma ftz vars st)"
    unfolding A2CContinuous_sigma_def using pos nan by blast
  with pos nan show ?thesis by blast
qed

lemma sigma_of_zero_softplus:
  assumes "softplus ftz x = Finite 0"
  shows "sigma ftz x = Finite (10995116 / 2 ^ 40)"
proof -
  define c :: real where "c = 10995116 / 2 ^ 40"
  have r: "round32 ftz (1 / 100000) = Finite c" "round32 ftz c = Finite c"
    unfolding c_def by (rule floor32)+
  have "sigma ftz x = fadd ftz (Finite 0) (Finite c)"
    unfolding sigma_def assms r(1) ..
  also have "\<dots> = round32 ftz c" by (simp add: fadd_def)
  also have "\<dots> = Finite c" by (rule r(2))
  finally show ?thesis unfolding c_def .
qed

theorem sigma_positive_unless_nan_witness:
  "softplus True (Finite (- 200)) = Finite 0 \<and>
   sigma True (Finite (- 200)) = Finite (10995116 / 2 ^ 40) \<and>
   flt (Finite 0) (sigma True (Finite (- 200))) \<and>
   (10995116 / 2 ^ 40 :: real) < 1 / 100000"
proof -
  have "Finite (- 200) \<noteq> NaN" by simp
  with sigma_positive_unless_nan [of "Finite (- 200)" True]
  have "flt (Finite 0) (sigma True (Finite (- 200)))" by blast
  moreover have "(10995116 / 2 ^ 40 :: real) < 1 / 100000" by simp
  ultimately show ?thesis
    by (intro conjI) (rule softplus_underflow sigma_of_zero_softplus [OF softplus_underflow] | assumption)+
qed

lemma clip_within_bounds:
  assumes "fle low high" "s \<noteq> NaN"
  shows "maximum (minimum s high) low \<noteq> NaN \<and>
         fle low (maximum (minimum s high) low) \<and>
         fle (maximum (minimum s high) low) high"
  using assms
  by (cases low; cases high; cases s) (auto simp: minimum_def maximum_def)

lemma clip_NaN:
  "maximum (minimum NaN high) low = NaN"
  by (simp add: minimum_def maximum_def)

lemma sample_singleton:
  "\<exists>s. A2CContinuous_sample ftz vars st noise = [s]"
  by (simp add: A2CContinuous_sample_def sample_n_1_def Let_def)

text \<open>
  C7 as stated fails: for a state with an infinite entry the mean of the zero-initialised
  layer is NaN, the clipping hands a NaN on, and the action returned is NaN, which is not
  within the bounds.
\<close>

theorem action_nan_counterexample:
  "fle (Finite (- 2)) (Finite 2) \<and>
   A2CContinuous_choose_action True (initial_variables 2) (Finite (- 2)) (Finite 2)
     [PosInf, Finite 0] (Finite 0) = [NaN] \<and>
   \<not> fle (Finite (- 2)) NaN \<and> \<not> fle NaN (Finite 2)"
  by (simp add: A2CContinuous_choose_action_def A2CContinuous_action_def
        A2CContinuous_sample_def A2CContinuous_sigma_def initial_variables_def
        fully_connected_def sample_n_1_def clip_by_value_def minimum_def maximum_def
        fmul_def fadd_def sigma_def numeral_2_eq_2)

text \<open>
  C7, amended. When the declared bounds are an interval (low is at most high),
  \<open>choose_action\<close> returns one value, the clipped draw, and this value is NaN or lies
  between low and high; it is NaN exactly when the draw is NaN. So for every state, all
  variables of the two layers and every draw of the noise for which the Gaussian draw is a
  number, finite or infinite, and for every such draw whatever mean and standard deviation
  it comes from, the action lies within the bounds.
\<close>

theorem action_within_bounds_unless_nan:
  assumes "fle low high"
  shows "length (A2CContinuous_choose_action ftz vars low high st noise) = 1 \<and>
         (\<forall>a \<in> set (A2CContinuous_choose_action ftz vars low high st noise).
            a = NaN \<or> (fle low a \<and> fle a high)) \<and>
         (A2CContinuous_choose_action ftz vars low high st noise = [NaN]
            \<longleftrightarrow> A2CContinuous_sample ftz vars st noise = [NaN]) \<and>
         (\<forall>mu sd. \<forall>a \<in> set (clip_by_value (sample_n_1 ftz mu sd noise) low high).
            sample_n_1 ftz mu sd noise \<noteq> [NaN] \<longrightarrow> fle low a \<and> fle a high)"
proof -
  obtain s where s: "A2CContinuous_sample ftz vars st noise = [s]"
    using sample_singleton by blast
  have a: "A2CContinuous_choose_action ftz vars low high st noise
      = [maximum (minimum s high) low]"
    by (simp add: A2CContinuous_choose_action_def A2CContinuous_action_def s
          clip_by_value_def)
  have 1: "length (A2CContinuous_choose_action ftz vars low high st noise) = 1"
    by (simp add: a)
  have 2: "\<forall>a \<in> set (A2CContinuous_choose_action ftz vars low high st noise).
            a = NaN \<or> (fle low a \<and> fle a high)"
    using clip_within_bounds [OF assms, of s] clip_NaN [of high low]
    by (cases "s = NaN") (simp_all add: a)
  have 3: "A2CContinuous_choose_action ftz vars low high st noise = [NaN]
            \<longleftrightarrow> A2CContinuous_sample ftz vars st noise = [NaN]"
    using clip_within_bounds [OF assms, of s] clip_NaN [of high low]
    by (cases "s = NaN") (simp_all add: a s)
  have 4: "\<forall>mu sd. \<forall>a \<in> set (clip_by_value (sample_n_1 ftz mu sd noise) low high).
            sample_n_1 ftz mu sd noise \<noteq> [NaN] \<longrightarrow> fle low a \<and> fle a high"
    using clip_within_bounds [OF assms]
    by (simp add: clip_by_value_def sample_n_1_def)
  from 1 2 3 4 show ?thesis by (intro conjI)
qed

lemma round32_zero: "round32 ftz 0 = Finite 0"
  by (simp add: round32_def)

lemma example_mean: "fully_connected ftz [Finite 1, Finite 0] (Finite 0) [Finite 5, Finite 1]
    = Finite 5"
proof -
  have 5: "round32 ftz 5 = Finite 5"
    using round32_small_int [of 5 ftz] by simp
  show ?thesis
    by (simp add: fully_connected_def fmul_def fadd_def 5 round32_zero)
qed

lemma example_logit: "fully_connected ftz [Finite 0, Finite 0] (Finite (- 200))
    [Finite 5, Finite 1] = Finite (- 200)"
proof -
  have r: "round32 ftz (- 200) = Finite (- 200)"
    using round32_small_int [of "- 200" ftz] by simp
  show ?thesis
    by (simp add: fully_connected_def fmul_def fadd_def r round32_zero)
qed

theorem action_within_bounds_unless_nan_witness:
  "fle (Finite (- 2)) (Finite 2) \<and>
   A2CContinuous_sample True
     \<lparr> mu_weights = [Finite 1, Finite 0], mu_bias = Finite 0,
       sigma_weights = [Finite 0, Finite 0], sigma_bias = Finite (- 200) \<rparr>
     [Finite 5, Finite 1] (Finite 0) = [Finite 5] \<and>
   A2CContinuous_choose_action True
     \<lparr> mu_weights = [Finite 1, Finite 0], mu_bias = Finite 0,
       sigma_weights = [Finite 0, Finite 0], sigma_bias = Finite (- 200) \<rparr>
     (Finite (- 2)) (Finite 2) [Finite 5, Finite 1] (Finite 0) = [Finite 2] \<and>
   clip_by_value (sample_n_1 True PosInf (Finite 1) (Finite 0)) (Finite (- 2)) (Finite 2)
     = [Finite 2]"
proof -
  let ?vars = "\<lparr> mu_weights = [Finite 1, Finite 0], mu_bias = Finite 0,
       sigma_weights = [Finite 0, Finite 0], sigma_bias = Finite (- 200) \<rparr>"
  have sd: "A2CContinuous_sigma True ?vars [Finite 5, Finite 1] = Finite (10995116 / 2 ^ 40)"
    by (simp only: A2CContinuous_sigma_def actor_variables.simps example_logit
          sigma_of_zero_softplus [OF softplus_underflow])
  have z: "round32 True 0 = Finite 0" by (rule round32_zero)
  have 5: "round32 True 5 = Finite 5" using round32_small_int [of 5 True] by simp
  have s: "A2CContinuous_sample True ?vars [Finite 5, Finite 1] (Finite 0) = [Finite 5]"
    unfolding A2CContinuous_sample_def Let_def sd
    by (simp only: actor_variables.simps example_mean) (simp add: sample_n_1_def fmul_def fadd_def z 5)
  have b: "fle (Finite (- 2)) (Finite 2)" by simp
  have a: "A2CContinuous_choose_action True ?vars (Finite (- 2)) (Finite 2)
      [Finite 5, Finite 1] (Finite 0) = [Finite 2]"
  proof -
    from action_within_bounds_unless_nan [OF b, of True ?vars "[Finite 5, Finite 1]" "Finite 0"]
    have "length (A2CContinuous_choose_action True ?vars (Finite (- 2)) (Finite 2)
        [Finite 5, Finite 1] (Finite 0)) = 1"
      by blast
    then show ?thesis
      by (simp add: A2CContinuous_choose_action_def A2CContinuous_action_def s
            clip_by_value_def minimum_def maximum_def)
  qed
  have c: "clip_by_value (sample_n_1 True PosInf (Finite 1) (Finite 0)) (Finite (- 2)) (Finite 2)
     = [Finite 2]"
    by (simp add: clip_by_value_def sample_n_1_def fmul_def fadd_def z minimum_def maximum_def)
  show ?thesis by (intro conjI) (rule b s a c)+
qed

subsection \<open>Properties of the training loop\<close>

lemma and_then_InrE:
  assumes "and_then m k st = (Inr b, st'')"
  obtains a st' where "m st = (Inr a, st')" "k a st' = (Inr b, st'')"
  using assms by (auto simp: and_then_def split: prod.splits sum.splits)

lemma and_then_InlE:
  assumes "and_then m k st = (Inl e, st'')"
  obtains "m st = (Inl e, st'')"
  | a st' where "m st = (Inr a, st')" "k a st' = (Inl e, st'')"
  using assms by (auto simp: and_then_def split: prod.splits sum.splits)

lemma call_InrE:
  assumes "call f ev st = (Inr a, st')"
  obtains w' where "f (fst st) = (Inr a, w')" "st' = (w', snd st @ [ev a])"
  using assms by (auto simp: call_def split: prod.splits sum.splits)

lemma call_InlE:
  assumes "call f ev st = (Inl e, st')"
  obtains w' where "f (fst st) = (Inl e, w')" "st' = (w', snd st)"
  using assms by (auto simp: call_def split: prod.splits sum.splits)

lemma lift_InrE:
  assumes "lift r st = (Inr a, st')"
  obtains "r = Inr a" "st' = st"
  using assms by (auto simp: lift_def)

lemma lift_InlE:
  assumes "lift r st = (Inl e, st')"
  obtains "r = Inl e" "st' = st"
  using assms by (auto simp: lift_def)

lemma ret_InrE:
  assumes "ret a st = (Inr b, st')"
  obtains "b = a" "st' = st"
  using assms by (auto simp: ret_def)

lemma np_concatenate_Inr:
  "np_concatenate xs = Inr ys \<longleftrightarrow> xs \<noteq> [] \<and> ys = concat xs"
  by (auto simp: np_concatenate_def split: list.splits)

lemma np_concatenate_Inl:
  "np_concatenate xs = Inl e \<longleftrightarrow> xs = [] \<and> e = ValueError"
  by (auto simp: np_concatenate_def split: list.splits)

lemma learn_iteration_Inr:
  assumes "learn_iteration encode ops cfg i tot (w, evs) = (Inr t, (w', evs'))"
  shows "\<exists>trajs w1 value w2 results w3 w4 w5.
     get_trajectories ops w = (Inr trajs, w1) \<and> trajs \<noteq> [] \<and>
     sess_run_critic_value ops (concat (map state trajs)) w1 = (Inr value, w2) \<and>
     sess_run_train ops (feed_dict_of encode cfg trajs (concat value)) w2 = (Inr results, w3) \<and>
     add_summary ops results i w3 = (Inr (), w4) \<and>
     flush ops w4 = (Inr (), w5) \<and>
     print_iteration_stats ops i (map (\<lambda>tr. sum_list (reward tr)) trajs)
        (map (\<lambda>tr. length (reward tr)) trajs) (tot + length trajs) w5 = (Inr (), w') \<and>
     t = tot + length trajs \<and>
     evs' = evs @ iteration_events encode cfg i tot trajs value results"
  using assms
  unfolding learn_iteration_def Let_def get_critic_value_def
  apply (elim and_then_InrE call_InrE lift_InrE ret_InrE)
  apply (simp add: np_concatenate_Inr iteration_events_def feed_dict_of_def)
  done
lemma train_feeds_simps:
  "train_feeds [] = []"
  "train_feeds (Train fd r # evs) = fd # train_feeds evs"
  "train_feeds (Get_trajectories ts # evs) = train_feeds evs"
  "train_feeds (Critic_value s v # evs) = train_feeds evs"
  "train_feeds (Add_summary r i # evs) = train_feeds evs"
  "train_feeds (Flush # evs) = train_feeds evs"
  "train_feeds (Print_iteration_stats i rs ls n # evs) = train_feeds evs"
  by (simp_all add: train_feeds_def)

lemma batches_simps:
  "batches [] = []"
  "batches (Get_trajectories ts # evs) = ts # batches evs"
  "batches (Train fd r # evs) = batches evs"
  "batches (Critic_value s v # evs) = batches evs"
  "batches (Add_summary r i # evs) = batches evs"
  "batches (Flush # evs) = batches evs"
  "batches (Print_iteration_stats i rs ls n # evs) = batches evs"
  by (simp_all add: batches_def)

lemma train_feeds_append: "train_feeds (xs @ ys) = train_feeds xs @ train_feeds ys"
  by (simp add: train_feeds_def List.map_filter_def)

lemma batches_append: "batches (xs @ ys) = batches xs @ batches ys"
  by (simp add: batches_def List.map_filter_def)

lemma learn_iteration_Inl:
  assumes "learn_iteration encode ops cfg i tot (w, evs) = (Inl e, (w', evs'))"
  shows "\<exists>seg. evs' = evs @ seg \<and>
           ((batches seg = [] \<and> train_feeds seg = []) \<or>
            (\<exists>trajs. batches seg = [trajs] \<and>
               (train_feeds seg = [] \<or>
                (\<exists>qw. train_feeds seg = [feed_dict_of encode cfg trajs qw]))))"
  using assms
  unfolding learn_iteration_def Let_def get_critic_value_def
  apply (elim and_then_InlE and_then_InrE call_InlE call_InrE lift_InlE lift_InrE ret_InrE)
  apply (auto simp: np_concatenate_Inr feed_dict_of_def train_feeds_simps batches_simps
      train_feeds_append batches_append ret_def)
  done
lemma iteration_events_feeds:
  "train_feeds (iteration_events encode cfg i tot trajs v r)
     = [feed_dict_of encode cfg trajs (concat v)]"
  "batches (iteration_events encode cfg i tot trajs v r) = [trajs]"
  by (simp_all add: iteration_events_def train_feeds_simps batches_simps)

lemma learn_loop_log:
  assumes "learn_loop (learn_iteration encode ops cfg) its tot (w, evs) = (res, (w', evs'))"
  shows "\<exists>new. evs' = evs @ new \<and>
      length (train_feeds new) \<le> length (batches new) \<and>
      length (batches new) \<le> length its \<and>
      (res = Inr () \<longrightarrow> length (train_feeds new) = length its \<and>
                        length (batches new) = length its) \<and>
      (\<forall>k < length (train_feeds new).
         \<exists>qw. train_feeds new ! k = feed_dict_of encode cfg (batches new ! k) qw)"
  using assms
proof (induction its arbitrary: tot w evs)
  case Nil
  then show ?case by (simp add: train_feeds_simps batches_simps)
next
  case (Cons i its)
  obtain r1 w1 evs1 where it: "learn_iteration encode ops cfg i tot (w, evs) = (r1, (w1, evs1))"
    by (metis surj_pair)
  show ?case
  proof (cases r1)
    case (Inl e)
    with Cons.prems it have res: "res = Inl e" "evs' = evs1" by simp_all
    from learn_iteration_Inl [OF it [unfolded Inl]] obtain seg where seg: "evs1 = evs @ seg"
      "(batches seg = [] \<and> train_feeds seg = []) \<or>
       (\<exists>trajs. batches seg = [trajs] \<and>
          (train_feeds seg = [] \<or> (\<exists>qw. train_feeds seg = [feed_dict_of encode cfg trajs qw])))"
      by blast
    show ?thesis
    proof (intro exI [of _ seg] conjI)
      show "evs' = evs @ seg" using res seg by simp
      show "length (train_feeds seg) \<le> length (batches seg)" using seg(2) by auto
      show "length (batches seg) \<le> length (i # its)" using seg(2) by auto
      show "res = Inr () \<longrightarrow> length (train_feeds seg) = length (i # its) \<and>
              length (batches seg) = length (i # its)" using res by simp
      show "\<forall>k < length (train_feeds seg).
              \<exists>qw. train_feeds seg ! k = feed_dict_of encode cfg (batches seg ! k) qw"
        using seg(2) by auto
    qed
  next
    case (Inr t)
    from learn_iteration_Inr [OF it [unfolded Inr]] obtain trajs v r where
      evs1: "evs1 = evs @ iteration_events encode cfg i tot trajs v r"
      by blast
    from Cons.prems it Inr
    have rest: "learn_loop (learn_iteration encode ops cfg) its t (w1, evs1) = (res, (w', evs'))"
      by simp
    from Cons.IH [OF rest] obtain new where new: "evs' = evs1 @ new"
      "length (train_feeds new) \<le> length (batches new)"
      "length (batches new) \<le> length its"
      "res = Inr () \<longrightarrow> length (train_feeds new) = length its \<and>
                        length (batches new) = length its"
      "\<forall>k < length (train_feeds new).
         \<exists>qw. train_feeds new ! k = feed_dict_of encode cfg (batches new ! k) qw"
      by blast
    let ?seg = "iteration_events encode cfg i tot trajs v r"
    have tf: "train_feeds (?seg @ new) = feed_dict_of encode cfg trajs (concat v) # train_feeds new"
      and bs: "batches (?seg @ new) = trajs # batches new"
      by (simp_all add: train_feeds_append batches_append iteration_events_feeds)
    show ?thesis
    proof (intro exI [of _ "?seg @ new"] conjI)
      show "evs' = evs @ ?seg @ new" using new(1) evs1 by simp
      show "length (train_feeds (?seg @ new)) \<le> length (batches (?seg @ new))"
        using new(2) by (simp add: tf bs)
      show "length (batches (?seg @ new)) \<le> length (i # its)"
        using new(3) by (simp add: bs)
      show "res = Inr () \<longrightarrow> length (train_feeds (?seg @ new)) = length (i # its) \<and>
              length (batches (?seg @ new)) = length (i # its)"
        using new(4) by (simp add: tf bs)
      show "\<forall>k < length (train_feeds (?seg @ new)).
              \<exists>qw. train_feeds (?seg @ new) ! k
                     = feed_dict_of encode cfg (batches (?seg @ new) ! k) qw"
      proof (intro allI impI)
        fix k assume k: "k < length (train_feeds (?seg @ new))"
        show "\<exists>qw. train_feeds (?seg @ new) ! k
                     = feed_dict_of encode cfg (batches (?seg @ new) ! k) qw"
        proof (cases k)
          case 0
          then show ?thesis by (auto simp: tf bs)
        next
          case (Suc j)
          with k have "j < length (train_feeds new)" by (simp add: tf)
          with new(5) Suc show ?thesis by (simp add: tf bs)
        qed
      qed
    qed
  qed
qed
lemma learn_iteration_succeeds:
  assumes "get_trajectories ops w = (Inr trajs, w1)" "trajs \<noteq> []"
    "sess_run_critic_value ops (concat (map state trajs)) w1 = (Inr v, w2)"
    "sess_run_train ops (feed_dict_of encode cfg trajs (concat v)) w2 = (Inr r, w3)"
    "add_summary ops r i w3 = (Inr (), w4)"
    "flush ops w4 = (Inr (), w5)"
    "print_iteration_stats ops i (map (\<lambda>tr. sum_list (reward tr)) trajs)
        (map (\<lambda>tr. length (reward tr)) trajs) (tot + length trajs) w5 = (Inr (), w6)"
  shows "learn_iteration encode ops cfg i tot (w, evs)
       = (Inr (tot + length trajs), (w6, evs @ iteration_events encode cfg i tot trajs v r))"
proof -
  from assms(2) obtain t ts where trajs: "trajs = t # ts" by (cases trajs) auto
  show ?thesis
    using assms unfolding feed_dict_of_def trajs
    by (simp add: learn_iteration_def and_then_def call_def lift_def ret_def
          get_critic_value_def np_concatenate_def Let_def iteration_events_def feed_dict_of_def)
qed

lemma learn_iteration_train:
  assumes "learn_iteration encode ops cfg i tot (w, evs) = (res, (w', evs'))"
  shows "\<exists>seg. evs' = evs @ seg \<and>
     (\<forall>fd r. Train fd r \<in> set seg \<longrightarrow>
        (\<exists>trajs w1 v w2 w3 rest.
           get_trajectories ops w = (Inr trajs, w1) \<and>
           sess_run_critic_value ops (critic_state_in fd) w1 = (Inr v, w2) \<and>
           critic_feedback fd = concat v \<and>
           sess_run_train ops fd w2 = (Inr r, w3) \<and>
           seg = Get_trajectories trajs # Critic_value (critic_state_in fd) v
                   # Train fd r # rest))"
proof (cases res)
  case (Inr t)
  from learn_iteration_Inr [OF assms [unfolded Inr]] show ?thesis
    by (fastforce simp: iteration_events_def feed_dict_of_def)
next
  case (Inl e)
  show ?thesis
    using assms unfolding Inl learn_iteration_def Let_def get_critic_value_def
    apply (elim and_then_InlE and_then_InrE call_InlE call_InrE lift_InlE lift_InrE ret_InrE)
    apply (auto simp: np_concatenate_Inr ret_def)
    done
qed
lemma calls_of_eq:
  assumes "f (w, evs) = (res, (w', evs @ new))"
  shows "calls_of f (w, evs) = new"
  using assms by (simp add: calls_of_def)

lemma learn_loop_calls:
  "\<exists>res w' new. learn_loop (learn_iteration encode ops cfg) its tot st = (res, (w', snd st @ new))
     \<and> calls_of (learn_loop (learn_iteration encode ops cfg) its tot) st = new
     \<and> length (train_feeds new) \<le> length (batches new)
     \<and> length (batches new) \<le> length its
     \<and> (res = Inr () \<longrightarrow> length (train_feeds new) = length its \<and>
                          length (batches new) = length its)
     \<and> (\<forall>k < length (train_feeds new).
         \<exists>qw. train_feeds new ! k = feed_dict_of encode cfg (batches new ! k) qw)"
proof -
  obtain w evs where st: "st = (w, evs)" by (cases st)
  obtain res w' evs' where
    run: "learn_loop (learn_iteration encode ops cfg) its tot (w, evs) = (res, (w', evs'))"
    by (metis surj_pair)
  from learn_loop_log [OF run] obtain new where new: "evs' = evs @ new"
      "length (train_feeds new) \<le> length (batches new)"
      "length (batches new) \<le> length its"
      "res = Inr () \<longrightarrow> length (train_feeds new) = length its \<and>
                        length (batches new) = length its"
      "\<forall>k < length (train_feeds new).
         \<exists>qw. train_feeds new ! k = feed_dict_of encode cfg (batches new ! k) qw"
    by blast
  have "calls_of (learn_loop (learn_iteration encode ops cfg) its tot) (w, evs) = new"
    using run new(1) by (simp add: calls_of_def)
  with run new show ?thesis unfolding st by auto
qed

lemma learn_loop_total:
  assumes "\<And>w. \<exists>trajs w'. get_trajectories ops w = (Inr trajs, w') \<and> trajs \<noteq> []"
    and "\<And>s w. \<exists>v w'. sess_run_critic_value ops s w = (Inr v, w')"
    and "\<And>fd w. \<exists>r w'. sess_run_train ops fd w = (Inr r, w')"
    and "\<And>r i w. \<exists>w'. add_summary ops r i w = (Inr (), w')"
    and "\<And>w. \<exists>w'. flush ops w = (Inr (), w')"
    and "\<And>i rs ls n w. \<exists>w'. print_iteration_stats ops i rs ls n w = (Inr (), w')"
  shows "fst (learn_loop (learn_iteration encode ops cfg) its tot st) = Inr ()"
proof (induction its arbitrary: tot st)
  case Nil
  show ?case by simp
next
  case (Cons i its)
  obtain w evs where st: "st = (w, evs)" by (cases st)
  from assms(1) obtain trajs w1 where 1: "get_trajectories ops w = (Inr trajs, w1)" "trajs \<noteq> []"
    by blast
  from assms(2) obtain v w2 where
    2: "sess_run_critic_value ops (concat (map state trajs)) w1 = (Inr v, w2)" by blast
  from assms(3) obtain r w3 where
    3: "sess_run_train ops (feed_dict_of encode cfg trajs (concat v)) w2 = (Inr r, w3)" by blast
  from assms(4) obtain w4 where 4: "add_summary ops r i w3 = (Inr (), w4)" by blast
  from assms(5) obtain w5 where 5: "flush ops w4 = (Inr (), w5)" by blast
  from assms(6) obtain w6 where
    6: "print_iteration_stats ops i (map (\<lambda>tr. sum_list (reward tr)) trajs)
        (map (\<lambda>tr. length (reward tr)) trajs) (tot + length trajs) w5 = (Inr (), w6)" by blast
  show ?case
    unfolding st using learn_iteration_succeeds [OF 1 2 3 4 5 6, of evs] Cons.IH
    by simp
qed
subsection \<open>Runs of the example learner\<close>

lemma example_iteration:
  assumes "trajs \<noteq> []"
  shows "learn_iteration encode (example_ops trajs None) cfg i tot (w, evs)
     = (Inr (tot + length trajs),
        (w + 1, evs @ iteration_events encode cfg i tot trajs
                        (map (\<lambda>_. [0]) (concat (map state trajs))) ()))"
  by (rule learn_iteration_succeeds [where ?w1.0 = "w + 1" and ?w2.0 = "w + 1" and ?w3.0 = "w + 1"
        and ?w4.0 = "w + 1" and ?w5.0 = "w + 1"])
     (simp_all add: example_ops_def assms)

lemma example_interrupted:
  "learn_iteration encode (example_ops trajs (Some w)) cfg i tot (w, evs)
     = (Inl KeyboardInterrupt, (w, evs))"
  by (simp add: learn_iteration_def and_then_def call_def example_ops_def)

lemma example_not_interrupted:
  assumes "trajs \<noteq> []" "w \<noteq> n"
  shows "learn_iteration encode (example_ops trajs (Some n)) cfg i tot (w, evs)
     = (Inr (tot + length trajs),
        (w + 1, evs @ iteration_events encode cfg i tot trajs
                        (map (\<lambda>_. [0]) (concat (map state trajs))) ()))"
  by (rule learn_iteration_succeeds [where ?w1.0 = "w + 1" and ?w2.0 = "w + 1" and ?w3.0 = "w + 1"
        and ?w4.0 = "w + 1" and ?w5.0 = "w + 1"])
     (simp_all add: example_ops_def assms)

lemma example_discrete_run:
  "A2C_learn (example_ops discrete_trajectories None) example_config 3 (0, [])
     = (Inr (), (2,
         iteration_events (one_hot_actions (possible_actions 3)) example_config 0 0
           discrete_trajectories [[0], [0], [0]] () @
         iteration_events (one_hot_actions (possible_actions 3)) example_config 1 2
           discrete_trajectories [[0], [0], [0]] ()))"
proof -
  have ne: "discrete_trajectories \<noteq> []" by (simp add: discrete_trajectories_def)
  have n: "[0..<nat (n_iter example_config)] = [0, 1]"
    by (simp add: example_config_def default_config_def upt_rec)
  have st: "map (\<lambda>_. [0::real]) (concat (map state discrete_trajectories)) = [[0], [0], [0]]"
    by (simp add: discrete_trajectories_def)
  have len: "length discrete_trajectories = 2" by (simp add: discrete_trajectories_def)
  show ?thesis
    unfolding A2C_learn_def n
    by (simp add: example_iteration [OF ne] st len numeral_2_eq_2)
qed

lemma example_continuous_run:
  "A2CContinuous_learn (example_ops continuous_trajectories (Some (Suc 0))) example_config (0, [])
     = (Inl KeyboardInterrupt, (Suc 0,
         iteration_events (\<lambda>all_action. all_action) example_config 0 0
           continuous_trajectories [[0], [0], [0]] ()))"
proof -
  have ne: "continuous_trajectories \<noteq> []" by (simp add: continuous_trajectories_def)
  have n: "[0..<nat (n_iter example_config)] = [0, 1]"
    by (simp add: example_config_def default_config_def upt_rec)
  have st: "map (\<lambda>_. [0::real]) (concat (map state continuous_trajectories)) = [[0], [0], [0]]"
    by (simp add: continuous_trajectories_def)
  show ?thesis
    unfolding A2CContinuous_learn_def n
    using example_interrupted [of "\<lambda>all_action. all_action" continuous_trajectories "Suc 0"]
    by (simp add: example_not_interrupted [OF ne] st)
qed

lemma example_discrete_updates:
  "gradient_updates (A2C_learn (example_ops discrete_trajectories None) example_config 3) (0, [])
     = [feed_dict_of (one_hot_actions (possible_actions 3)) example_config
          discrete_trajectories [0, 0, 0],
        feed_dict_of (one_hot_actions (possible_actions 3)) example_config
          discrete_trajectories [0, 0, 0]]"
  "collected_batches (A2C_learn (example_ops discrete_trajectories None) example_config 3) (0, [])
     = [discrete_trajectories, discrete_trajectories]"
  by (simp_all add: gradient_updates_def collected_batches_def calls_of_def
        example_discrete_run train_feeds_append batches_append iteration_events_feeds)

lemma example_continuous_updates:
  "gradient_updates
     (A2CContinuous_learn (example_ops continuous_trajectories (Some (Suc 0))) example_config)
     (0, [])
     = [feed_dict_of (\<lambda>all_action. all_action) example_config continuous_trajectories [0, 0, 0]]"
  "collected_batches
     (A2CContinuous_learn (example_ops continuous_trajectories (Some (Suc 0))) example_config)
     (0, [])
     = [continuous_trajectories]"
  by (simp_all add: gradient_updates_def collected_batches_def calls_of_def
        example_continuous_run iteration_events_feeds)

lemma learn_loop_summary:
  "length (gradient_updates (learn_loop (learn_iteration encode ops cfg) its tot) st)
     \<le> length (collected_batches (learn_loop (learn_iteration encode ops cfg) its tot) st)"
  "length (collected_batches (learn_loop (learn_iteration encode ops cfg) its tot) st)
     \<le> length its"
  "fst (learn_loop (learn_iteration encode ops cfg) its tot st) = Inr () \<Longrightarrow>
     length (gradient_updates (learn_loop (learn_iteration encode ops cfg) its tot) st)
       = length its \<and>
     length (collected_batches (learn_loop (learn_iteration encode ops cfg) its tot) st)
       = length its"
  "k < length (gradient_updates (learn_loop (learn_iteration encode ops cfg) its tot) st) \<Longrightarrow>
     \<exists>qw. gradient_updates (learn_loop (learn_iteration encode ops cfg) its tot) st ! k
       = feed_dict_of encode cfg
           (collected_batches (learn_loop (learn_iteration encode ops cfg) its tot) st ! k) qw"
proof -
  let ?f = "learn_loop (learn_iteration encode ops cfg) its tot"
  from learn_loop_calls [of encode ops cfg its tot st]
  obtain res w' new where run: "?f st = (res, (w', snd st @ new))"
    and new: "calls_of ?f st = new"
      "length (train_feeds new) \<le> length (batches new)"
      "length (batches new) \<le> length its"
      "res = Inr () \<longrightarrow> length (train_feeds new) = length its \<and>
                        length (batches new) = length its"
      "\<forall>k < length (train_feeds new).
         \<exists>qw. train_feeds new ! k = feed_dict_of encode cfg (batches new ! k) qw"
    by blast
  show "length (gradient_updates ?f st) \<le> length (collected_batches ?f st)"
    using new by (simp add: gradient_updates_def collected_batches_def)
  show "length (collected_batches ?f st) \<le> length its"
    using new by (simp add: collected_batches_def)
  show "length (gradient_updates ?f st) = length its \<and>
        length (collected_batches ?f st) = length its" if "fst (?f st) = Inr ()"
    using that run new by (simp add: gradient_updates_def collected_batches_def)
  show "\<exists>qw. gradient_updates ?f st ! k
          = feed_dict_of encode cfg (collected_batches ?f st ! k) qw"
    if "k < length (gradient_updates ?f st)"
    using that new by (simp add: gradient_updates_def collected_batches_def)
qed

text \<open>
  C4. A run of \<open>learn\<close>, of either learner, never makes more than \<open>n_iter\<close> training
  steps; a run that returns has collected exactly \<open>n_iter\<close> batches and made exactly
  \<open>n_iter\<close> training steps, one per batch; each training step is fed the pooled arrays
  of all trajectories of its batch; and a run in which no external call raises and every
  batch has a trajectory does return. Nothing but the iteration count ends the loop.
  (As \<^verbatim>\<open>range\<close> does, a negative \<open>n_iter\<close> counts as zero.)
\<close>

theorem learn_runs_n_iter_updates:
  "length (gradient_updates (A2C_learn ops cfg nA) st) \<le> nat (n_iter cfg) \<and>
   (fst (A2C_learn ops cfg nA st) = Inr () \<longrightarrow>
      length (collected_batches (A2C_learn ops cfg nA) st) = nat (n_iter cfg) \<and>
      length (gradient_updates (A2C_learn ops cfg nA) st) = nat (n_iter cfg)) \<and>
   (\<forall>k < length (gradient_updates (A2C_learn ops cfg nA) st).
      k < length (collected_batches (A2C_learn ops cfg nA) st) \<and>
      (\<exists>qw. gradient_updates (A2C_learn ops cfg nA) st ! k
         = feed_dict_of (one_hot_actions (possible_actions nA)) cfg
             (collected_batches (A2C_learn ops cfg nA) st ! k) qw)) \<and>
   ((\<forall>w. \<exists>trajs w'. get_trajectories ops w = (Inr trajs, w') \<and> trajs \<noteq> []) \<and>
    (\<forall>s w. \<exists>v w'. sess_run_critic_value ops s w = (Inr v, w')) \<and>
    (\<forall>fd w. \<exists>r w'. sess_run_train ops fd w = (Inr r, w')) \<and>
    (\<forall>r i w. \<exists>w'. add_summary ops r i w = (Inr (), w')) \<and>
    (\<forall>w. \<exists>w'. flush ops w = (Inr (), w')) \<and>
    (\<forall>i rs ls n w. \<exists>w'. print_iteration_stats ops i rs ls n w = (Inr (), w'))
    \<longrightarrow> fst (A2C_learn ops cfg nA st) = Inr ()) \<and>
   length (gradient_updates (A2CContinuous_learn opsc cfg) stc) \<le> nat (n_iter cfg) \<and>
   (fst (A2CContinuous_learn opsc cfg stc) = Inr () \<longrightarrow>
      length (collected_batches (A2CContinuous_learn opsc cfg) stc) = nat (n_iter cfg) \<and>
      length (gradient_updates (A2CContinuous_learn opsc cfg) stc) = nat (n_iter cfg)) \<and>
   (\<forall>k < length (gradient_updates (A2CContinuous_learn opsc cfg) stc).
      k < length (collected_batches (A2CContinuous_learn opsc cfg) stc) \<and>
      (\<exists>qw. gradient_updates (A2CContinuous_learn opsc cfg) stc ! k
         = feed_dict_of (\<lambda>all_action. all_action) cfg
             (collected_batches (A2CContinuous_learn opsc cfg) stc ! k) qw)) \<and>
   ((\<forall>w. \<exists>trajs w'. get_trajectories opsc w = (Inr trajs, w') \<and> trajs \<noteq> []) \<and>
    (\<forall>s w. \<exists>v w'. sess_run_critic_value opsc s w = (Inr v, w')) \<and>
    (\<forall>fd w. \<exists>r w'. sess_run_train opsc fd w = (Inr r, w')) \<and>
    (\<forall>r i w. \<exists>w'. add_summary opsc r i w = (Inr (), w')) \<and>
    (\<forall>w. \<exists>w'. flush opsc w = (Inr (), w')) \<and>
    (\<forall>i rs ls n w. \<exists>w'. print_iteration_stats opsc i rs ls n w = (Inr (), w'))
    \<longrightarrow> fst (A2CContinuous_learn opsc cfg stc) = Inr ())"
proof -
  have d: "A2C_learn ops cfg nA
      = learn_loop (learn_iteration (one_hot_actions (possible_actions nA)) ops cfg)
          [0..<nat (n_iter cfg)] 0"
    by (rule ext) (simp add: A2C_learn_def)
  have c: "A2CContinuous_learn opsc cfg
      = learn_loop (learn_iteration (\<lambda>all_action. all_action) opsc cfg)
          [0..<nat (n_iter cfg)] 0"
    by (rule ext) (simp add: A2CContinuous_learn_def)
  note s1 = learn_loop_summary [where encode = "one_hot_actions (possible_actions nA)"
      and ops = ops and cfg = cfg and its = "[0..<nat (n_iter cfg)]" and tot = 0 and st = st,
      folded d]
  note s2 = learn_loop_summary [where encode = "\<lambda>all_action. all_action"
      and ops = opsc and cfg = cfg and its = "[0..<nat (n_iter cfg)]" and tot = 0 and st = stc,
      folded c]
  have t1: "fst (A2C_learn ops cfg nA st) = Inr ()"
    if "(\<forall>w. \<exists>trajs w'. get_trajectories ops w = (Inr trajs, w') \<and> trajs \<noteq> []) \<and>
    (\<forall>s w. \<exists>v w'. sess_run_critic_value ops s w = (Inr v, w')) \<and>
    (\<forall>fd w. \<exists>r w'. sess_run_train ops fd w = (Inr r, w')) \<and>
    (\<forall>r i w. \<exists>w'. add_summary ops r i w = (Inr (), w')) \<and>
    (\<forall>w. \<exists>w'. flush ops w = (Inr (), w')) \<and>
    (\<forall>i rs ls n w. \<exists>w'. print_iteration_stats ops i rs ls n w = (Inr (), w'))"
    unfolding d using that by (intro learn_loop_total) blast+
  have t2: "fst (A2CContinuous_learn opsc cfg stc) = Inr ()"
    if "(\<forall>w. \<exists>trajs w'. get_trajectories opsc w = (Inr trajs, w') \<and> trajs \<noteq> []) \<and>
    (\<forall>s w. \<exists>v w'. sess_run_critic_value opsc s w = (Inr v, w')) \<and>
    (\<forall>fd w. \<exists>r w'. sess_run_train opsc fd w = (Inr r, w')) \<and>
    (\<forall>r i w. \<exists>w'. add_summary opsc r i w = (Inr (), w')) \<and>
    (\<forall>w. \<exists>w'. flush opsc w = (Inr (), w')) \<and>
    (\<forall>i rs ls n w. \<exists>w'. print_iteration_stats opsc i rs ls n w = (Inr (), w'))"
    unfolding c using that by (intro learn_loop_total) blast+
  have a1: "length (gradient_updates (A2C_learn ops cfg nA) st) \<le> nat (n_iter cfg)"
    using s1(1) s1(2) by simp
  have a2: "length (gradient_updates (A2CContinuous_learn opsc cfg) stc) \<le> nat (n_iter cfg)"
    using s2(1) s2(2) by simp
  have b1: "k < length (collected_batches (A2C_learn ops cfg nA) st)"
    if "k < length (gradient_updates (A2C_learn ops cfg nA) st)" for k
    using that s1(1) by simp
  have b2: "k < length (collected_batches (A2CContinuous_learn opsc cfg) stc)"
    if "k < length (gradient_updates (A2CContinuous_learn opsc cfg) stc)" for k
    using that s2(1) by simp
  show ?thesis
    using a1 a2 b1 b2 s1(3) s2(3) s1(4) s2(4) t1 t2
    by (intro conjI allI impI) (simp_all del: One_nat_def)
qed

theorem learn_runs_n_iter_updates_witness:
  "fst (A2C_learn (example_ops discrete_trajectories None) example_config 3 (0, [])) = Inr () \<and>
   length (collected_batches
     (A2C_learn (example_ops discrete_trajectories None) example_config 3) (0, [])) = 2 \<and>
   length (gradient_updates
     (A2C_learn (example_ops discrete_trajectories None) example_config 3) (0, [])) = 2 \<and>
   nat (n_iter example_config) = 2 \<and>
   fst (A2CContinuous_learn (example_ops continuous_trajectories (Some (Suc 0))) example_config (0, []))
     = Inl KeyboardInterrupt \<and>
   length (gradient_updates
     (A2CContinuous_learn (example_ops continuous_trajectories (Some (Suc 0))) example_config) (0, []))
     = 1"
proof -
  have n: "nat (n_iter example_config) = 2"
    by (simp add: example_config_def default_config_def)
  have d: "fst (A2C_learn (example_ops discrete_trajectories None) example_config 3 (0, []))
      = Inr ()"
    by (simp add: example_discrete_run)
  have c: "fst (A2CContinuous_learn (example_ops continuous_trajectories (Some (Suc 0)))
      example_config (0, [])) = Inl KeyboardInterrupt"
    by (simp add: example_continuous_run)
  have u: "length (gradient_updates
     (A2CContinuous_learn (example_ops continuous_trajectories (Some (Suc 0))) example_config)
     (0, [])) = 1"
    by (simp add: gradient_updates_def calls_of_def example_continuous_run
          iteration_events_feeds)
  from d learn_runs_n_iter_updates [where ops = "example_ops discrete_trajectories None"
      and cfg = example_config and nA = 3 and st = "(0, [])"
      and opsc = "example_ops continuous_trajectories (Some (Suc 0))" and stc = "(0, [])"]
  have "length (collected_batches
       (A2C_learn (example_ops discrete_trajectories None) example_config 3) (0, []))
        = nat (n_iter example_config) \<and>
     length (gradient_updates
       (A2C_learn (example_ops discrete_trajectories None) example_config 3) (0, []))
        = nat (n_iter example_config)"
    by blast
  with n d c u show ?thesis by simp
qed

subsection \<open>The pooled batch\<close>

lemma A2C_learn_feeds:
  assumes "k < length (gradient_updates (A2C_learn ops cfg nA) st)"
  shows "k < length (collected_batches (A2C_learn ops cfg nA) st) \<and>
         (\<exists>qw. gradient_updates (A2C_learn ops cfg nA) st ! k
            = feed_dict_of (one_hot_actions (possible_actions nA)) cfg
                (collected_batches (A2C_learn ops cfg nA) st ! k) qw)"
proof -
  have d: "A2C_learn ops cfg nA
      = learn_loop (learn_iteration (one_hot_actions (possible_actions nA)) ops cfg)
          [0..<nat (n_iter cfg)] 0"
    by (rule ext) (simp add: A2C_learn_def)
  note s = learn_loop_summary [where encode = "one_hot_actions (possible_actions nA)"
      and ops = ops and cfg = cfg and its = "[0..<nat (n_iter cfg)]" and tot = 0 and st = st,
      folded d]
  from assms s(1) have "k < length (collected_batches (A2C_learn ops cfg nA) st)" by simp
  with s(4) [OF assms] show ?thesis by simp
qed

lemma A2CContinuous_learn_feeds:
  assumes "k < length (gradient_updates (A2CContinuous_learn ops cfg) st)"
  shows "k < length (collected_batches (A2CContinuous_learn ops cfg) st) \<and>
         (\<exists>qw. gradient_updates (A2CContinuous_learn ops cfg) st ! k
            = feed_dict_of (\<lambda>all_action. all_action) cfg
                (collected_batches (A2CContinuous_learn ops cfg) st ! k) qw)"
proof -
  have c: "A2CContinuous_learn ops cfg
      = learn_loop (learn_iteration (\<lambda>all_action. all_action) ops cfg)
          [0..<nat (n_iter cfg)] 0"
    by (rule ext) (simp add: A2CContinuous_learn_def)
  note s = learn_loop_summary [where encode = "\<lambda>all_action. all_action"
      and ops = ops and cfg = cfg and its = "[0..<nat (n_iter cfg)]" and tot = 0 and st = st,
      folded c]
  from assms s(1) have "k < length (collected_batches (A2CContinuous_learn ops cfg) st)" by simp
  with s(4) [OF assms] show ?thesis by simp
qed

lemma length_pooled:
  "length (concat (map f b)) = sum_list (map (\<lambda>t. length (f t)) b)"
  by (simp add: length_concat comp_def)

lemma sum_list_well_formed:
  assumes "\<forall>t \<in> set b. well_formed t"
  shows "sum_list (map (\<lambda>t. length (state t)) b) = sum_list (map (\<lambda>t. length (reward t)) b)"
    and "sum_list (map (\<lambda>t. length (action t)) b) = sum_list (map (\<lambda>t. length (reward t)) b)"
  using assms by (induction b) (simp_all add: well_formed_def)

lemma feed_dict_of_rows:
  "length (critic_state_in (feed_dict_of encode cfg b qw))
     = sum_list (map (\<lambda>t. length (state t)) b)"
  "length (actor_input (feed_dict_of encode cfg b qw))
     = sum_list (map (\<lambda>t. length (state t)) b)"
  "length (critic_target (feed_dict_of encode cfg b qw))
     = sum_list (map (\<lambda>t. length (reward t)) b)"
  "length (critic_rewards (feed_dict_of encode cfg b qw))
     = sum_list (map (\<lambda>t. length (reward t)) b)"
  "length (actions_taken (feed_dict_of (one_hot_actions p) cfg bd qw))
     = sum_list (map (\<lambda>t. length (action t)) bd)"
  "length (actions_taken (feed_dict_of (\<lambda>all_action. all_action) cfg b qw))
     = sum_list (map (\<lambda>t. length (action t)) b)"
  by (simp_all add: feed_dict_of_def length_pooled length_discount_rewards
        one_hot_actions_def)

text \<open>
  C3. In every run of either learner, every training step is fed arrays of states, of
  (encoded) actions and of returns of which each has as many rows as the corresponding
  arrays of the trajectories of its batch have together; and whenever the trajectories of
  the batch have one state and one action per reward, each of the arrays has exactly as
  many rows as the sum of the lengths of these trajectories.
\<close>

theorem pooled_batch_rows:
  "(\<forall>k < length (gradient_updates (A2C_learn ops cfg nA) st).
      length (critic_state_in (gradient_updates (A2C_learn ops cfg nA) st ! k))
        = sum_list (map (\<lambda>t. length (state t)) (collected_batches (A2C_learn ops cfg nA) st ! k)) \<and>
      length (actions_taken (gradient_updates (A2C_learn ops cfg nA) st ! k))
        = sum_list (map (\<lambda>t. length (action t)) (collected_batches (A2C_learn ops cfg nA) st ! k)) \<and>
      length (critic_target (gradient_updates (A2C_learn ops cfg nA) st ! k))
        = sum_list (map (\<lambda>t. length (reward t)) (collected_batches (A2C_learn ops cfg nA) st ! k)) \<and>
      ((\<forall>t \<in> set (collected_batches (A2C_learn ops cfg nA) st ! k). well_formed t) \<longrightarrow>
         length (critic_state_in (gradient_updates (A2C_learn ops cfg nA) st ! k))
           = sum_list (map (\<lambda>t. length (reward t)) (collected_batches (A2C_learn ops cfg nA) st ! k)) \<and>
         length (actor_input (gradient_updates (A2C_learn ops cfg nA) st ! k))
           = sum_list (map (\<lambda>t. length (reward t)) (collected_batches (A2C_learn ops cfg nA) st ! k)) \<and>
         length (actions_taken (gradient_updates (A2C_learn ops cfg nA) st ! k))
           = sum_list (map (\<lambda>t. length (reward t)) (collected_batches (A2C_learn ops cfg nA) st ! k)) \<and>
         length (critic_target (gradient_updates (A2C_learn ops cfg nA) st ! k))
           = sum_list (map (\<lambda>t. length (reward t)) (collected_batches (A2C_learn ops cfg nA) st ! k)) \<and>
         length (critic_rewards (gradient_updates (A2C_learn ops cfg nA) st ! k))
           = sum_list (map (\<lambda>t. length (reward t)) (collected_batches (A2C_learn ops cfg nA) st ! k)))) \<and>
   (\<forall>k < length (gradient_updates (A2CContinuous_learn opsc cfg) stc).
      length (critic_state_in (gradient_updates (A2CContinuous_learn opsc cfg) stc ! k))
        = sum_list (map (\<lambda>t. length (state t)) (collected_batches (A2CContinuous_learn opsc cfg) stc ! k)) \<and>
      length (actions_taken (gradient_updates (A2CContinuous_learn opsc cfg) stc ! k))
        = sum_list (map (\<lambda>t. length (action t)) (collected_batches (A2CContinuous_learn opsc cfg) stc ! k)) \<and>
      length (critic_target (gradient_updates (A2CContinuous_learn opsc cfg) stc ! k))
        = sum_list (map (\<lambda>t. length (reward t)) (collected_batches (A2CContinuous_learn opsc cfg) stc ! k)) \<and>
      ((\<forall>t \<in> set (collected_batches (A2CContinuous_learn opsc cfg) stc ! k). well_formed t) \<longrightarrow>
         length (critic_state_in (gradient_updates (A2CContinuous_learn opsc cfg) stc ! k))
           = sum_list (map (\<lambda>t. length (reward t)) (collected_batches (A2CContinuous_learn opsc cfg) stc ! k)) \<and>
         length (actor_input (gradient_updates (A2CContinuous_learn opsc cfg) stc ! k))
           = sum_list (map (\<lambda>t. length (reward t)) (collected_batches (A2CContinuous_learn opsc cfg) stc ! k)) \<and>
         length (actions_taken (gradient_updates (A2CContinuous_learn opsc cfg) stc ! k))
           = sum_list (map (\<lambda>t. length (reward t)) (collected_batches (A2CContinuous_learn opsc cfg) stc ! k)) \<and>
         length (critic_target (gradient_updates (A2CContinuous_learn opsc cfg) stc ! k))
           = sum_list (map (\<lambda>t. length (reward t)) (collected_batches (A2CContinuous_learn opsc cfg) stc ! k)) \<and>
         length (critic_rewards (gradient_updates (A2CContinuous_learn opsc cfg) stc ! k))
           = sum_list (map (\<lambda>t. length (reward t)) (collected_batches (A2CContinuous_learn opsc cfg) stc ! k))))"
proof (intro conjI allI impI)
  fix k assume k: "k < length (gradient_updates (A2C_learn ops cfg nA) st)"
  from A2C_learn_feeds [OF k] obtain qw where
    fd: "gradient_updates (A2C_learn ops cfg nA) st ! k
       = feed_dict_of (one_hot_actions (possible_actions nA)) cfg
           (collected_batches (A2C_learn ops cfg nA) st ! k) qw"
    by blast
  let ?b = "collected_batches (A2C_learn ops cfg nA) st ! k"
  let ?u = "gradient_updates (A2C_learn ops cfg nA) st ! k"
  show "length (critic_state_in ?u) = sum_list (map (\<lambda>t. length (state t)) ?b)"
    and "length (actions_taken ?u) = sum_list (map (\<lambda>t. length (action t)) ?b)"
    and "length (critic_target ?u) = sum_list (map (\<lambda>t. length (reward t)) ?b)"
    unfolding fd by (simp_all only: feed_dict_of_rows)
  assume wf: "\<forall>t \<in> set ?b. well_formed t"
  show "length (critic_state_in ?u) = sum_list (map (\<lambda>t. length (reward t)) ?b)"
    and "length (actor_input ?u) = sum_list (map (\<lambda>t. length (reward t)) ?b)"
    and "length (actions_taken ?u) = sum_list (map (\<lambda>t. length (reward t)) ?b)"
    and "length (critic_target ?u) = sum_list (map (\<lambda>t. length (reward t)) ?b)"
    and "length (critic_rewards ?u) = sum_list (map (\<lambda>t. length (reward t)) ?b)"
    unfolding fd by (simp_all only: feed_dict_of_rows sum_list_well_formed [OF wf])
next
  fix k assume k: "k < length (gradient_updates (A2CContinuous_learn opsc cfg) stc)"
  from A2CContinuous_learn_feeds [OF k] obtain qw where
    fd: "gradient_updates (A2CContinuous_learn opsc cfg) stc ! k
       = feed_dict_of (\<lambda>all_action. all_action) cfg
           (collected_batches (A2CContinuous_learn opsc cfg) stc ! k) qw"
    by blast
  let ?b = "collected_batches (A2CContinuous_learn opsc cfg) stc ! k"
  let ?u = "gradient_updates (A2CContinuous_learn opsc cfg) stc ! k"
  show "length (critic_state_in ?u) = sum_list (map (\<lambda>t. length (state t)) ?b)"
    and "length (actions_taken ?u) = sum_list (map (\<lambda>t. length (action t)) ?b)"
    and "length (critic_target ?u) = sum_list (map (\<lambda>t. length (reward t)) ?b)"
    unfolding fd by (simp_all only: feed_dict_of_rows)
  assume wf: "\<forall>t \<in> set ?b. well_formed t"
  show "length (critic_state_in ?u) = sum_list (map (\<lambda>t. length (reward t)) ?b)"
    and "length (actor_input ?u) = sum_list (map (\<lambda>t. length (reward t)) ?b)"
    and "length (actions_taken ?u) = sum_list (map (\<lambda>t. length (reward t)) ?b)"
    and "length (critic_target ?u) = sum_list (map (\<lambda>t. length (reward t)) ?b)"
    and "length (critic_rewards ?u) = sum_list (map (\<lambda>t. length (reward t)) ?b)"
    unfolding fd by (simp_all only: feed_dict_of_rows sum_list_well_formed [OF wf])
qed
theorem pooled_batch_rows_witness:
  "length (critic_state_in (gradient_updates
      (A2C_learn (example_ops discrete_trajectories None) example_config 3) (0, []) ! 1)) = 3 \<and>
   length (actions_taken (gradient_updates
      (A2C_learn (example_ops discrete_trajectories None) example_config 3) (0, []) ! 1)) = 3 \<and>
   length (critic_target (gradient_updates
      (A2C_learn (example_ops discrete_trajectories None) example_config 3) (0, []) ! 1)) = 3 \<and>
   sum_list (map (\<lambda>t. length (reward t)) discrete_trajectories) = 3 \<and>
   length (critic_state_in (gradient_updates
      (A2CContinuous_learn (example_ops continuous_trajectories (Some (Suc 0))) example_config)
      (0, []) ! 0)) = 3 \<and>
   length (actions_taken (gradient_updates
      (A2CContinuous_learn (example_ops continuous_trajectories (Some (Suc 0))) example_config)
      (0, []) ! 0)) = 3 \<and>
   length (critic_target (gradient_updates
      (A2CContinuous_learn (example_ops continuous_trajectories (Some (Suc 0))) example_config)
      (0, []) ! 0)) = 3 \<and>
   sum_list (map (\<lambda>t. length (reward t)) continuous_trajectories) = 3"
proof -
  let ?d = "A2C_learn (example_ops discrete_trajectories None) example_config 3"
  let ?c = "A2CContinuous_learn (example_ops continuous_trajectories (Some (Suc 0)))
              example_config"
  have kd: "1 < length (gradient_updates ?d (0, []))"
    by (simp add: example_discrete_updates)
  have kc: "0 < length (gradient_updates ?c (0, []))"
    by (simp add: example_continuous_updates)
  have bd: "collected_batches ?d (0, []) ! 1 = discrete_trajectories"
    by (simp add: example_discrete_updates)
  have bc: "collected_batches ?c (0, []) ! 0 = continuous_trajectories"
    by (simp add: example_continuous_updates)
  have wd: "\<forall>t \<in> set (collected_batches ?d (0, []) ! 1). well_formed t"
    unfolding bd by (simp add: discrete_trajectories_def well_formed_def)
  have wc: "\<forall>t \<in> set (collected_batches ?c (0, []) ! 0). well_formed t"
    unfolding bc by (simp add: continuous_trajectories_def well_formed_def)
  have sd: "sum_list (map (\<lambda>t. length (reward t)) discrete_trajectories) = 3"
    by (simp add: discrete_trajectories_def)
  have sc: "sum_list (map (\<lambda>t. length (reward t)) continuous_trajectories) = 3"
    by (simp add: continuous_trajectories_def)
  note rows = pooled_batch_rows [where ops = "example_ops discrete_trajectories None"
      and cfg = example_config and nA = 3 and st = "(0, [])"
      and opsc = "example_ops continuous_trajectories (Some (Suc 0))" and stc = "(0, [])"]
  from rows kd wd have
    "length (critic_state_in (gradient_updates ?d (0, []) ! 1))
       = sum_list (map (\<lambda>t. length (reward t)) (collected_batches ?d (0, []) ! 1)) \<and>
     length (actions_taken (gradient_updates ?d (0, []) ! 1))
       = sum_list (map (\<lambda>t. length (reward t)) (collected_batches ?d (0, []) ! 1)) \<and>
     length (critic_target (gradient_updates ?d (0, []) ! 1))
       = sum_list (map (\<lambda>t. length (reward t)) (collected_batches ?d (0, []) ! 1))"
    by blast
  moreover from rows kc wc have
    "length (critic_state_in (gradient_updates ?c (0, []) ! 0))
       = sum_list (map (\<lambda>t. length (reward t)) (collected_batches ?c (0, []) ! 0)) \<and>
     length (actions_taken (gradient_updates ?c (0, []) ! 0))
       = sum_list (map (\<lambda>t. length (reward t)) (collected_batches ?c (0, []) ! 0)) \<and>
     length (critic_target (gradient_updates ?c (0, []) ! 0))
       = sum_list (map (\<lambda>t. length (reward t)) (collected_batches ?c (0, []) ! 0))"
    by blast
  ultimately show ?thesis
    unfolding bd bc sd sc by simp
qed
subsection \<open>Returns are discounted per trajectory\<close>

lemma discounted_return_Cons_Suc:
  "discounted_return (x # xs) g (Suc t) = discounted_return xs g t"
proof -
  have "[Suc t..<Suc (length xs)] = map Suc [t..<length xs]"
    by (simp only: map_Suc_upt)
  then show ?thesis
    by (simp add: discounted_return_def comp_def del: upt_Suc)
qed

lemma discounted_return_Cons_0:
  "discounted_return (x # xs) g 0 = x + g * discounted_return xs g 0"
  using discounted_return_step [of 0 "x # xs" g]
  by (simp add: discounted_return_Cons_Suc)

lemma discount_rewards_Cons:
  "discount_rewards (x # xs) g
     = (x + g * discounted_return xs g 0) # discount_rewards xs g"
proof -
  have "[0..<Suc (length xs)] = 0 # map Suc [0..<length xs]"
    by (simp only: map_Suc_upt upt_conv_Cons [OF zero_less_Suc])
  then show ?thesis
    by (simp add: discount_rewards_def comp_def discounted_return_Cons_Suc
          discounted_return_Cons_0 del: upt_Suc)
qed

lemma discount_rewards_Nil: "discount_rewards [] g = []"
  by (simp add: discount_rewards_def)

lemma discounted_return_append_0:
  "discounted_return (r1 @ r2) g 0
     = discounted_return r1 g 0 + g ^ length r1 * discounted_return r2 g 0"
proof (induction r1)
  case Nil
  show ?case by (simp add: discounted_return_end)
next
  case (Cons x xs)
  then show ?case by (simp add: discounted_return_Cons_0 algebra_simps)
qed

lemma discount_rewards_boundary:
  "discount_rewards r1 g @ discount_rewards r2 g = discount_rewards (r1 @ r2) g
     \<longleftrightarrow> r1 = [] \<or> g = 0 \<or> discounted_return r2 g 0 = 0"
proof (induction r1)
  case Nil
  show ?case by (simp add: discount_rewards_Nil)
next
  case (Cons x xs)
  have "discount_rewards (x # xs) g @ discount_rewards r2 g
          = discount_rewards ((x # xs) @ r2) g
      \<longleftrightarrow> g * (g ^ length xs * discounted_return r2 g 0) = 0 \<and>
          discount_rewards xs g @ discount_rewards r2 g = discount_rewards (xs @ r2) g"
    by (simp add: discount_rewards_Cons discounted_return_append_0 algebra_simps)
  also have "\<dots> \<longleftrightarrow> g = 0 \<or> discounted_return r2 g 0 = 0"
    using Cons.IH by auto
  finally show ?case by simp
qed

lemma concat_block:
  assumes "j < length xss"
  shows "take (length (xss ! j)) (drop (length (concat (take j xss))) (concat xss)) = xss ! j"
proof -
  have "xss = take j xss @ xss ! j # drop (Suc j) xss"
    using assms by (rule id_take_nth_drop)
  then have "concat xss = concat (take j xss) @ xss ! j @ concat (drop (Suc j) xss)"
    by (metis concat.simps(2) concat_append)
  then show ?thesis by simp
qed

lemma returns_block:
  assumes "j < length b"
  shows "take (length (reward (b ! j)))
           (drop (sum_list (map (\<lambda>t. length (reward t)) (take j b)))
              (concat (map (\<lambda>t. discount_rewards (reward t) g) b)))
         = discount_rewards (reward (b ! j)) g"
proof -
  let ?xss = "map (\<lambda>t. discount_rewards (reward t) g) b"
  have j: "j < length ?xss" using assms by simp
  have "length (concat (take j ?xss)) = sum_list (map (\<lambda>t. length (reward t)) (take j b))"
    by (simp add: take_map length_pooled length_discount_rewards)
  with concat_block [OF j] show ?thesis
    using assms by (simp add: length_discount_rewards)
qed
text \<open>
  C2. In every run of either learner, the returns fed to a training step (as the critic's
  target and as the actor's rewards) are the concatenation, over the trajectories of the
  batch, of the discounted returns of each trajectory, and the block of a trajectory is
  computed from the rewards of this trajectory alone. Discounting two trajectories apart
  gives the same as discounting their concatenated rewards as one trajectory only if the
  first one is empty, the discount factor is zero, or the discounted return of the second
  one from its first step is zero; otherwise the two differ.
\<close>

theorem returns_per_trajectory:
  "(\<forall>k < length (gradient_updates (A2C_learn ops cfg nA) st).
      critic_target (gradient_updates (A2C_learn ops cfg nA) st ! k)
        = concat (map (\<lambda>t. discount_rewards (reward t) (gamma cfg))
            (collected_batches (A2C_learn ops cfg nA) st ! k)) \<and>
      critic_rewards (gradient_updates (A2C_learn ops cfg nA) st ! k)
        = concat (map (\<lambda>t. discount_rewards (reward t) (gamma cfg))
            (collected_batches (A2C_learn ops cfg nA) st ! k)) \<and>
      (\<forall>j < length (collected_batches (A2C_learn ops cfg nA) st ! k).
         take (length (reward (collected_batches (A2C_learn ops cfg nA) st ! k ! j)))
           (drop (sum_list (map (\<lambda>t. length (reward t))
                    (take j (collected_batches (A2C_learn ops cfg nA) st ! k))))
              (critic_target (gradient_updates (A2C_learn ops cfg nA) st ! k)))
         = discount_rewards (reward (collected_batches (A2C_learn ops cfg nA) st ! k ! j))
             (gamma cfg))) \<and>
   (\<forall>k < length (gradient_updates (A2CContinuous_learn opsc cfg) stc).
      critic_target (gradient_updates (A2CContinuous_learn opsc cfg) stc ! k)
        = concat (map (\<lambda>t. discount_rewards (reward t) (gamma cfg))
            (collected_batches (A2CContinuous_learn opsc cfg) stc ! k)) \<and>
      critic_rewards (gradient_updates (A2CContinuous_learn opsc cfg) stc ! k)
        = concat (map (\<lambda>t. discount_rewards (reward t) (gamma cfg))
            (collected_batches (A2CContinuous_learn opsc cfg) stc ! k)) \<and>
      (\<forall>j < length (collected_batches (A2CContinuous_learn opsc cfg) stc ! k).
         take (length (reward (collected_batches (A2CContinuous_learn opsc cfg) stc ! k ! j)))
           (drop (sum_list (map (\<lambda>t. length (reward t))
                    (take j (collected_batches (A2CContinuous_learn opsc cfg) stc ! k))))
              (critic_target (gradient_updates (A2CContinuous_learn opsc cfg) stc ! k)))
         = discount_rewards (reward (collected_batches (A2CContinuous_learn opsc cfg) stc ! k ! j))
             (gamma cfg))) \<and>
   (discount_rewards r1 g @ discount_rewards r2 g = discount_rewards (r1 @ r2) g
      \<longleftrightarrow> r1 = [] \<or> g = 0 \<or> discounted_return r2 g 0 = 0)"
proof (intro conjI allI impI)
  fix k assume k: "k < length (gradient_updates (A2C_learn ops cfg nA) st)"
  from A2C_learn_feeds [OF k] obtain qw where
    fd: "gradient_updates (A2C_learn ops cfg nA) st ! k
       = feed_dict_of (one_hot_actions (possible_actions nA)) cfg
           (collected_batches (A2C_learn ops cfg nA) st ! k) qw"
    by blast
  let ?b = "collected_batches (A2C_learn ops cfg nA) st ! k"
  let ?u = "gradient_updates (A2C_learn ops cfg nA) st ! k"
  show t: "critic_target ?u = concat (map (\<lambda>t. discount_rewards (reward t) (gamma cfg)) ?b)"
    and "critic_rewards ?u = concat (map (\<lambda>t. discount_rewards (reward t) (gamma cfg)) ?b)"
    unfolding fd by (simp_all add: feed_dict_of_def)
  fix j assume j: "j < length ?b"
  show "take (length (reward (?b ! j)))
          (drop (sum_list (map (\<lambda>t. length (reward t)) (take j ?b))) (critic_target ?u))
        = discount_rewards (reward (?b ! j)) (gamma cfg)"
    unfolding t by (rule returns_block [OF j])
next
  fix k assume k: "k < length (gradient_updates (A2CContinuous_learn opsc cfg) stc)"
  from A2CContinuous_learn_feeds [OF k] obtain qw where
    fd: "gradient_updates (A2CContinuous_learn opsc cfg) stc ! k
       = feed_dict_of (\<lambda>all_action. all_action) cfg
           (collected_batches (A2CContinuous_learn opsc cfg) stc ! k) qw"
    by blast
  let ?b = "collected_batches (A2CContinuous_learn opsc cfg) stc ! k"
  let ?u = "gradient_updates (A2CContinuous_learn opsc cfg) stc ! k"
  show t: "critic_target ?u = concat (map (\<lambda>t. discount_rewards (reward t) (gamma cfg)) ?b)"
    and "critic_rewards ?u = concat (map (\<lambda>t. discount_rewards (reward t) (gamma cfg)) ?b)"
    unfolding fd by (simp_all add: feed_dict_of_def)
  fix j assume j: "j < length ?b"
  show "take (length (reward (?b ! j)))
          (drop (sum_list (map (\<lambda>t. length (reward t)) (take j ?b))) (critic_target ?u))
        = discount_rewards (reward (?b ! j)) (gamma cfg)"
    unfolding t by (rule returns_block [OF j])
next
  show "discount_rewards r1 g @ discount_rewards r2 g = discount_rewards (r1 @ r2) g
      \<longleftrightarrow> r1 = [] \<or> g = 0 \<or> discounted_return r2 g 0 = 0"
    by (rule discount_rewards_boundary)
qed

lemma example_returns:
  "discount_rewards [1, 2] (1 / 2) = [2, 2]"
  "discount_rewards [4] (1 / 2) = [4]"
  "discount_rewards [1, 2, 4] (1 / 2) = [3, 4, 4]"
  "discounted_return [4] (1 / 2) 0 = 4"
  by (simp_all add: discount_rewards_Cons discount_rewards_Nil discounted_return_Cons_0
        discounted_return_end)

theorem returns_per_trajectory_witness:
  "critic_target (gradient_updates
      (A2C_learn (example_ops discrete_trajectories None) example_config 3) (0, []) ! 0)
     = [2, 2, 4] \<and>
   critic_rewards (gradient_updates
      (A2CContinuous_learn (example_ops continuous_trajectories (Some (Suc 0))) example_config)
      (0, []) ! 0)
     = [2, 2, 4] \<and>
   discount_rewards [1, 2] (1 / 2) @ discount_rewards [4] (1 / 2) = [2, 2, 4] \<and>
   discount_rewards ([1, 2] @ [4]) (1 / 2) = [3, 4, 4] \<and>
   discount_rewards [1, 2] (1 / 2) @ discount_rewards [4] (1 / 2)
     \<noteq> discount_rewards ([1, 2] @ [4]) (1 / 2) \<and>
   discounted_return [4] (1 / 2) 0 = 4"
proof -
  let ?d = "A2C_learn (example_ops discrete_trajectories None) example_config 3"
  let ?c = "A2CContinuous_learn (example_ops continuous_trajectories (Some (Suc 0)))
              example_config"
  have kd: "0 < length (gradient_updates ?d (0, []))"
    by (simp add: example_discrete_updates)
  have kc: "0 < length (gradient_updates ?c (0, []))"
    by (simp add: example_continuous_updates)
  have bd: "collected_batches ?d (0, []) ! 0 = discrete_trajectories"
    by (simp add: example_discrete_updates)
  have bc: "collected_batches ?c (0, []) ! 0 = continuous_trajectories"
    by (simp add: example_continuous_updates)
  have g: "gamma example_config = 1 / 2"
    by (simp add: example_config_def default_config_def)
  note inst = returns_per_trajectory [where ops = "example_ops discrete_trajectories None"
      and cfg = example_config and nA = 3 and st = "(0, [])"
      and opsc = "example_ops continuous_trajectories (Some (Suc 0))" and stc = "(0, [])"
      and ?r1.0 = "[1, 2]" and ?r2.0 = "[4]" and g = "1 / 2"]
  from inst kd have "critic_target (gradient_updates ?d (0, []) ! 0)
      = concat (map (\<lambda>t. discount_rewards (reward t) (gamma example_config))
          (collected_batches ?d (0, []) ! 0))"
    by blast
  then have 1: "critic_target (gradient_updates ?d (0, []) ! 0) = [2, 2, 4]"
    unfolding bd g by (simp add: discrete_trajectories_def example_returns)
  from inst kc have "critic_rewards (gradient_updates ?c (0, []) ! 0)
      = concat (map (\<lambda>t. discount_rewards (reward t) (gamma example_config))
          (collected_batches ?c (0, []) ! 0))"
    by blast
  then have 2: "critic_rewards (gradient_updates ?c (0, []) ! 0) = [2, 2, 4]"
    unfolding bc g by (simp add: continuous_trajectories_def example_returns)
  from inst have 3: "discount_rewards [1, 2] (1 / 2) @ discount_rewards [4] (1 / 2)
      \<noteq> discount_rewards ([1, 2] @ [4]) (1 / 2)"
    by (simp add: example_returns)
  show ?thesis
    using 1 2 3 by (simp add: example_returns)
qed
subsection \<open>The baseline is queried before the update\<close>

lemma baseline_before_update_append:
  assumes "baseline_before_update xs" "baseline_before_update ys"
    and "ys = [] \<or> (\<exists>t rest. ys = Get_trajectories t # rest)"
  shows "baseline_before_update (xs @ ys)"
  using assms
  by (induction xs rule: baseline_before_update.induct) auto

lemma learn_iteration_baseline:
  assumes "learn_iteration encode ops cfg i tot (w, evs) = (res, (w', evs'))"
  shows "\<exists>seg. evs' = evs @ seg \<and> baseline_before_update seg \<and>
           (seg = [] \<or> (\<exists>t rest. seg = Get_trajectories t # rest))"
proof (cases res)
  case (Inr t)
  from learn_iteration_Inr [OF assms [unfolded Inr]] show ?thesis
    by (auto simp: iteration_events_def feed_dict_of_def)
next
  case (Inl e)
  show ?thesis
    using assms unfolding Inl learn_iteration_def Let_def get_critic_value_def
    apply (elim and_then_InlE and_then_InrE call_InlE call_InrE lift_InlE lift_InrE ret_InrE)
    apply (auto simp: np_concatenate_Inr ret_def)
    done
qed

lemma learn_loop_baseline:
  assumes "learn_loop (learn_iteration encode ops cfg) its tot (w, evs) = (res, (w', evs'))"
  shows "\<exists>new. evs' = evs @ new \<and> baseline_before_update new \<and>
           (new = [] \<or> (\<exists>t rest. new = Get_trajectories t # rest))"
  using assms
proof (induction its arbitrary: tot w evs)
  case Nil
  then show ?case by simp
next
  case (Cons i its)
  obtain r1 w1 evs1 where it: "learn_iteration encode ops cfg i tot (w, evs) = (r1, (w1, evs1))"
    by (metis surj_pair)
  from learn_iteration_baseline [OF it] obtain seg where seg: "evs1 = evs @ seg"
    "baseline_before_update seg" "seg = [] \<or> (\<exists>t rest. seg = Get_trajectories t # rest)"
    by blast
  show ?case
  proof (cases r1)
    case (Inl e)
    with Cons.prems it have "evs' = evs1" by simp
    with seg show ?thesis by blast
  next
    case (Inr t)
    from learn_iteration_Inr [OF it [unfolded Inr]] have ne: "seg \<noteq> []"
      using seg(1) by (auto simp: iteration_events_def)
    from Cons.prems it Inr
    have "learn_loop (learn_iteration encode ops cfg) its t (w1, evs1) = (res, (w', evs'))"
      by simp
    from Cons.IH [OF this] obtain new where new: "evs' = evs1 @ new"
      "baseline_before_update new" "new = [] \<or> (\<exists>t rest. new = Get_trajectories t # rest)"
      by blast
    have "evs' = evs @ (seg @ new)" using new(1) seg(1) by simp
    moreover have "baseline_before_update (seg @ new)"
      by (rule baseline_before_update_append [OF seg(2) new(2) new(3)])
    moreover have "\<exists>t rest. seg @ new = Get_trajectories t # rest"
      using seg(3) ne by auto
    ultimately show ?thesis by blast
  qed
qed

lemma learn_loop_baseline_calls:
  "baseline_before_update (calls_of (learn_loop (learn_iteration encode ops cfg) its tot) st)"
proof -
  obtain w evs where st: "st = (w, evs)" by (cases st)
  obtain res w' evs' where
    run: "learn_loop (learn_iteration encode ops cfg) its tot (w, evs) = (res, (w', evs'))"
    by (metis surj_pair)
  from learn_loop_baseline [OF run] show ?thesis
    unfolding st by (auto simp: calls_of_def run)
qed

text \<open>
  C8. Whenever an iteration of either learner runs its training step, the critic's value
  has been queried before it, in the world the collection of the batch left, on the pooled
  states; the baseline fed to the training step is the flattened answer of that query; and
  the training step, with its update of the critic, runs on the world the query left. In
  the log of a whole run every training step comes right after such a query.
\<close>

theorem baseline_queried_before_update:
  "(\<forall>res w' evs'. learn_iteration encode ops cfg i tot (w, evs) = (res, (w', evs')) \<longrightarrow>
      (\<exists>seg. evs' = evs @ seg \<and>
         (\<forall>fd r. Train fd r \<in> set seg \<longrightarrow>
            (\<exists>trajs w1 v w2 w3 rest.
               get_trajectories ops w = (Inr trajs, w1) \<and>
               sess_run_critic_value ops (critic_state_in fd) w1 = (Inr v, w2) \<and>
               critic_feedback fd = concat v \<and>
               sess_run_train ops fd w2 = (Inr r, w3) \<and>
               seg = Get_trajectories trajs # Critic_value (critic_state_in fd) v
                       # Train fd r # rest)))) \<and>
   baseline_before_update (calls_of (A2C_learn opsd cfg nA) std) \<and>
   baseline_before_update (calls_of (A2CContinuous_learn opsc cfg) stc)"
proof (intro conjI allI impI)
  fix res w' evs'
  assume "learn_iteration encode ops cfg i tot (w, evs) = (res, (w', evs'))"
  then show "\<exists>seg. evs' = evs @ seg \<and>
         (\<forall>fd r. Train fd r \<in> set seg \<longrightarrow>
            (\<exists>trajs w1 v w2 w3 rest.
               get_trajectories ops w = (Inr trajs, w1) \<and>
               sess_run_critic_value ops (critic_state_in fd) w1 = (Inr v, w2) \<and>
               critic_feedback fd = concat v \<and>
               sess_run_train ops fd w2 = (Inr r, w3) \<and>
               seg = Get_trajectories trajs # Critic_value (critic_state_in fd) v
                       # Train fd r # rest))"
    by (rule learn_iteration_train)
next
  have "A2C_learn opsd cfg nA
      = learn_loop (learn_iteration (one_hot_actions (possible_actions nA)) opsd cfg)
          [0..<nat (n_iter cfg)] 0"
    by (rule ext) (simp add: A2C_learn_def)
  then show "baseline_before_update (calls_of (A2C_learn opsd cfg nA) std)"
    by (simp only: learn_loop_baseline_calls)
next
  have "A2CContinuous_learn opsc cfg
      = learn_loop (learn_iteration (\<lambda>all_action. all_action) opsc cfg)
          [0..<nat (n_iter cfg)] 0"
    by (rule ext) (simp add: A2CContinuous_learn_def)
  then show "baseline_before_update (calls_of (A2CContinuous_learn opsc cfg) stc)"
    by (simp only: learn_loop_baseline_calls)
qed
theorem baseline_queried_before_update_witness:
  "learn_iteration (one_hot_actions (possible_actions 3))
      (example_ops discrete_trajectories None) example_config 0 0 (0, [])
     = (Inr 2, (1, iteration_events (one_hot_actions (possible_actions 3)) example_config 0 0
                     discrete_trajectories [[0], [0], [0]] ())) \<and>
   critic_state_in (feed_dict_of (one_hot_actions (possible_actions 3)) example_config
      discrete_trajectories [0, 0, 0]) = [0, 1, 2] \<and>
   critic_feedback (feed_dict_of (one_hot_actions (possible_actions 3)) example_config
      discrete_trajectories [0, 0, 0])
     = concat (map (\<lambda>_. [0]) (critic_state_in
         (feed_dict_of (one_hot_actions (possible_actions 3)) example_config
            discrete_trajectories [0, 0, 0]))) \<and>
   baseline_before_update (calls_of
      (A2C_learn (example_ops discrete_trajectories None) example_config 3) (0, [])) \<and>
   length (calls_of
      (A2C_learn (example_ops discrete_trajectories None) example_config 3) (0, [])) = 12 \<and>
   baseline_before_update (calls_of
      (A2CContinuous_learn (example_ops continuous_trajectories (Some (Suc 0))) example_config)
      (0, []))"
proof -
  let ?enc = "one_hot_actions (possible_actions 3)"
  let ?ops = "example_ops discrete_trajectories None
                :: (nat, nat, int, real list list, unit) learner_ops"
  let ?fd = "feed_dict_of ?enc example_config discrete_trajectories [0, 0, 0]"
  let ?seg = "iteration_events ?enc example_config 0 0 discrete_trajectories [[0], [0], [0]] ()"
  have ne: "discrete_trajectories \<noteq> []" by (simp add: discrete_trajectories_def)
  have run: "learn_iteration ?enc ?ops example_config 0 0 (0, []) = (Inr 2, (1, ?seg))"
  proof -
    have "map (\<lambda>_. [0::real]) (concat (map state discrete_trajectories)) = [[0], [0], [0]]"
      and "length discrete_trajectories = 2"
      by (simp_all add: discrete_trajectories_def)
    then show ?thesis by (simp add: example_iteration [OF ne])
  qed
  note inst = baseline_queried_before_update [where encode = ?enc and ops = ?ops
      and cfg = example_config and i = 0 and tot = 0 and w = 0 and evs = "[]"
      and opsd = ?ops and nA = 3 and std = "(0, [])"
      and opsc = "example_ops continuous_trajectories (Some (Suc 0))" and stc = "(0, [])"]
  from inst [THEN conjunct1, rule_format, OF run] obtain seg where seg: "?seg = [] @ seg"
    "\<forall>fd r. Train fd r \<in> set seg \<longrightarrow>
       (\<exists>trajs w1 v w2 w3 rest.
          get_trajectories ?ops 0 = (Inr trajs, w1) \<and>
          sess_run_critic_value ?ops (critic_state_in fd) w1 = (Inr v, w2) \<and>
          critic_feedback fd = concat v \<and>
          sess_run_train ?ops fd w2 = (Inr r, w3) \<and>
          seg = Get_trajectories trajs # Critic_value (critic_state_in fd) v
                  # Train fd r # rest)"
    by blast
  from seg(1) have "seg = ?seg" by simp
  then have "Train ?fd () \<in> set seg"
    by (simp add: iteration_events_def)
  from seg(2) [rule_format, OF this] obtain w1 v w2 where
    "sess_run_critic_value ?ops (critic_state_in ?fd) w1 = (Inr v, w2)"
    "critic_feedback ?fd = concat v"
    by (elim exE conjE)
  then have fb: "critic_feedback ?fd = concat (map (\<lambda>_. [0]) (critic_state_in ?fd))"
    by (auto simp: example_ops_def)
  have cs: "critic_state_in ?fd = [0, 1, 2]"
    by (simp add: feed_dict_of_def discrete_trajectories_def)
  have len: "length (calls_of (A2C_learn ?ops example_config 3) (0, [])) = 12"
    by (simp add: calls_of_def example_discrete_run iteration_events_def)
  note b1 = inst [THEN conjunct2, THEN conjunct1]
  note b2 = inst [THEN conjunct2, THEN conjunct2]
  show ?thesis
    by (intro conjI) (rule run cs fb b1 len b2)+
qed
subsection \<open>Interrupts\<close>

lemma learn_iteration_raises:
  assumes "learn_iteration encode ops cfg i tot (w, evs) = (Inl e, (w', evs'))"
  shows "raised_by_call ops e w' \<or> e = ValueError"
  using assms unfolding learn_iteration_def Let_def get_critic_value_def raised_by_call_def
  apply (elim and_then_InlE and_then_InrE call_InlE call_InrE lift_InlE lift_InrE ret_InrE)
  apply (auto simp: np_concatenate_Inr np_concatenate_Inl ret_def)
  done

lemma learn_loop_raises:
  assumes "learn_loop (learn_iteration encode ops cfg) its tot (w, evs) = (Inl e, (w', evs'))"
  shows "raised_by_call ops e w' \<or> e = ValueError"
  using assms
proof (induction its arbitrary: tot w evs)
  case Nil
  then show ?case by simp
next
  case (Cons i its)
  obtain r1 w1 evs1 where it: "learn_iteration encode ops cfg i tot (w, evs) = (r1, (w1, evs1))"
    by (metis surj_pair)
  show ?case
  proof (cases r1)
    case (Inl e1)
    with Cons.prems it
    have "learn_iteration encode ops cfg i tot (w, evs) = (Inl e, (w', evs1))" by simp
    then show ?thesis by (rule learn_iteration_raises)
  next
    case (Inr t)
    with Cons.prems it
    have "learn_loop (learn_iteration encode ops cfg) its t (w1, evs1) = (Inl e, (w', evs'))"
      by simp
    then show ?thesis by (rule Cons.IH)
  qed
qed

lemma main_parse_error:
  assumes "parse_args ops w = (Inl e, w1)"
  shows "main ops w = (Exited, w1)"
  using assms by (simp add: main_def)

lemma main_setup_error:
  assumes "parse_args ops w = (Inr a, w1)"
    and "gym_make ops (environment a) w1 = (Inl e, w2) \<or>
         (\<exists>env w'. gym_make ops (environment a) w1 = (Inr env, w') \<and>
            make_agent ops env (monitor_path a) w' = (Inl e, w2))"
  shows "main ops w = (Uncaught e, w2)"
  using assms by (auto simp: main_def)

lemma main_guarded_block:
  assumes "parse_args ops w = (Inr a, w1)"
    and "gym_make ops (environment a) w1 = (Inr env, w2)"
    and "make_agent ops env (monitor_path a) w2 = (Inr ag, w3)"
  shows "wrap_env ops ag (monitor_path a) w3 = (Inl e, w4) \<Longrightarrow>
           main ops w = (if e = KeyboardInterrupt then Returned else Uncaught e, w4)"
    and "wrap_env ops ag (monitor_path a) w3 = (Inr ag', w4) \<Longrightarrow>
         agent_learn ag' w4 = (Inl e, w5) \<Longrightarrow>
           main ops w = (if e = KeyboardInterrupt then Returned else Uncaught e, w5)"
    and "wrap_env ops ag (monitor_path a) w3 = (Inr ag', w4) \<Longrightarrow>
         agent_learn ag' w4 = (Inr u, w5) \<Longrightarrow> main ops w = (Returned, w5)"
  using assms by (simp_all add: main_def and_then_def)
text \<open>
  C9 as stated fails: an interrupt raised while \<open>main\<close> creates the environment is
  outside the block that \<open>main\<close> guards against interrupts and leaves \<open>main\<close> uncaught.
\<close>

theorem interrupt_in_gym_make_counterexample:
  "gym_make (example_main_ops In_gym_make) ''CartPole-v0'' 0 = (Inl KeyboardInterrupt, 0) \<and>
   main (example_main_ops In_gym_make) 0 = (Uncaught KeyboardInterrupt, 0)"
  by (simp add: example_main_ops_def main_def)

text \<open>
  C9, amended. An interrupt raised inside the block that \<open>main\<close> guards, that is while
  the monitor is attached to the environment or while \<open>learn\<close> runs, is caught: \<open>main\<close>
  returns, and the world is the one the interrupted call left, so nothing is done after
  the interrupt. An interrupt that ends \<open>learn\<close> was raised by one of the external
  calls of the loop, and \<open>learn\<close> hands on the world that call left. An exception raised by
  the argument parser makes \<open>main\<close> leave through \<open>sys.exit()\<close>. An interrupt raised by
  \<open>gym.make\<close> or by the construction of the learner is not caught by \<open>main\<close>.
\<close>

theorem interrupt_caught_by_main:
  "(parse_args ops w = (Inl e, w1) \<longrightarrow> main ops w = (Exited, w1)) \<and>
   (parse_args ops w = (Inr a, w1) \<and>
    gym_make ops (environment a) w1 = (Inr env, w2) \<and>
    make_agent ops env (monitor_path a) w2 = (Inr ag, w3) \<longrightarrow>
      (wrap_env ops ag (monitor_path a) w3 = (Inl KeyboardInterrupt, w4) \<longrightarrow>
         main ops w = (Returned, w4)) \<and>
      (wrap_env ops ag (monitor_path a) w3 = (Inr ag', w4) \<and>
       agent_learn ag' w4 = (Inl KeyboardInterrupt, w5) \<longrightarrow>
         main ops w = (Returned, w5))) \<and>
   (A2C_learn opsd cfg nA (wd, evd) = (Inl KeyboardInterrupt, (wd', evd')) \<longrightarrow>
      raised_by_call opsd KeyboardInterrupt wd') \<and>
   (A2CContinuous_learn opsc cfg (wc, evc) = (Inl KeyboardInterrupt, (wc', evc')) \<longrightarrow>
      raised_by_call opsc KeyboardInterrupt wc') \<and>
   (parse_args ops w = (Inr a, w1) \<and>
    (gym_make ops (environment a) w1 = (Inl KeyboardInterrupt, w2) \<or>
     (\<exists>env w'. gym_make ops (environment a) w1 = (Inr env, w') \<and>
        make_agent ops env (monitor_path a) w' = (Inl KeyboardInterrupt, w2))) \<longrightarrow>
      main ops w = (Uncaught KeyboardInterrupt, w2))"
proof (intro conjI impI)
  assume "parse_args ops w = (Inl e, w1)"
  then show "main ops w = (Exited, w1)" by (rule main_parse_error)
next
  assume ready: "parse_args ops w = (Inr a, w1) \<and>
    gym_make ops (environment a) w1 = (Inr env, w2) \<and>
    make_agent ops env (monitor_path a) w2 = (Inr ag, w3)"
  note inside = main_guarded_block [OF ready [THEN conjunct1]
      ready [THEN conjunct2, THEN conjunct1] ready [THEN conjunct2, THEN conjunct2]]
  {
    assume "wrap_env ops ag (monitor_path a) w3 = (Inl KeyboardInterrupt, w4)"
    from inside(1) [OF this] show "main ops w = (Returned, w4)" by simp
  next
    assume "wrap_env ops ag (monitor_path a) w3 = (Inr ag', w4) \<and>
       agent_learn ag' w4 = (Inl KeyboardInterrupt, w5)"
    then show "main ops w = (Returned, w5)"
      using inside(2) [of ag' w4 KeyboardInterrupt w5] by simp
  }
next
  assume "A2C_learn opsd cfg nA (wd, evd) = (Inl KeyboardInterrupt, (wd', evd'))"
  then have "raised_by_call opsd KeyboardInterrupt wd' \<or> KeyboardInterrupt = ValueError"
    unfolding A2C_learn_def by (rule learn_loop_raises)
  then show "raised_by_call opsd KeyboardInterrupt wd'" by simp
next
  assume "A2CContinuous_learn opsc cfg (wc, evc) = (Inl KeyboardInterrupt, (wc', evc'))"
  then have "raised_by_call opsc KeyboardInterrupt wc' \<or> KeyboardInterrupt = ValueError"
    unfolding A2CContinuous_learn_def by (rule learn_loop_raises)
  then show "raised_by_call opsc KeyboardInterrupt wc'" by simp
next
  assume "parse_args ops w = (Inr a, w1) \<and>
    (gym_make ops (environment a) w1 = (Inl KeyboardInterrupt, w2) \<or>
     (\<exists>env w'. gym_make ops (environment a) w1 = (Inr env, w') \<and>
        make_agent ops env (monitor_path a) w' = (Inl KeyboardInterrupt, w2)))"
  then show "main ops w = (Uncaught KeyboardInterrupt, w2)"
    using main_setup_error [of ops w a w1 KeyboardInterrupt w2] by blast
qed
lemma example_interrupted_run:
  "A2C_learn (example_ops discrete_trajectories (Some (Suc 0))) (default_config m) 3 (0, [])
     = (Inl KeyboardInterrupt, (Suc 0,
         iteration_events (one_hot_actions (possible_actions 3)) (default_config m) 0 0
           discrete_trajectories [[0], [0], [0]] ()))"
proof -
  have ne: "discrete_trajectories \<noteq> []" by (simp add: discrete_trajectories_def)
  have n: "[0..<nat (n_iter (default_config m))] = 0 # Suc 0 # [2..<400]"
    by (simp add: default_config_def upt_conv_Cons)
  have st: "map (\<lambda>_. [0::real]) (concat (map state discrete_trajectories)) = [[0], [0], [0]]"
    by (simp add: discrete_trajectories_def)
  show ?thesis
    unfolding A2C_learn_def n
    using example_interrupted [of "one_hot_actions (possible_actions 3)"
        discrete_trajectories "Suc 0"]
    by (simp add: example_not_interrupted [OF ne] st)
qed

theorem interrupt_caught_by_main_witness:
  "main (example_main_ops In_learn) 0 = (Returned, 1) \<and>
   main (example_main_ops In_Monitor) 0 = (Returned, 0) \<and>
   main (example_main_ops In_parse_args) 0 = (Exited, 0) \<and>
   main (example_main_ops In_constructor) 0 = (Uncaught KeyboardInterrupt, 0) \<and>
   agent_learn (A2CDiscrete () 3 (default_config (Some 200))
       (\<lambda>env. example_ops discrete_trajectories (Some (Suc 0))) :: (nat, unit, nat, real, unit) agent) 0
     = (Inl KeyboardInterrupt, 1) \<and>
   get_trajectories (example_ops discrete_trajectories (Some (Suc 0))
       :: (nat, nat, int, real list list, unit) learner_ops) 1
     = (Inl KeyboardInterrupt, 1)"
proof -
  let ?a = "\<lparr> environment = ''CartPole-v0'', monitor_path = ''monitor'' \<rparr>"
  let ?lops = "example_ops discrete_trajectories (Some (Suc 0))
                 :: (nat, nat, int, real list list, unit) learner_ops"
  let ?ag = "A2CDiscrete () 3 (default_config (Some 200)) (\<lambda>env. ?lops)
               :: (nat, unit, nat, real, unit) agent"
  let ?mon = "A2CDiscrete () 3 (default_config (Some 200))
                (\<lambda>env. example_ops discrete_trajectories None)
               :: (nat, unit, nat, real, unit) agent"
  have learn: "agent_learn ?ag 0 = (Inl KeyboardInterrupt, 1)"
    by (simp add: agent_learn_def example_interrupted_run)
  have l1: "parse_args (example_main_ops In_learn) 0 = (Inr ?a, 0)"
    and l2: "gym_make (example_main_ops In_learn) (environment ?a) 0 = (Inr (), 0)"
    and l3: "make_agent (example_main_ops In_learn) () (monitor_path ?a) 0 = (Inr ?ag, 0)"
    and l4: "wrap_env (example_main_ops In_learn) ?ag (monitor_path ?a) 0 = (Inr ?ag, 0)"
    by (simp_all add: example_main_ops_def make_agent_def new_A2CDiscrete_def wrap_env_def
          and_then_def ret_def)
  have m1: "parse_args (example_main_ops In_Monitor) 0 = (Inr ?a, 0)"
    and m2: "gym_make (example_main_ops In_Monitor) (environment ?a) 0 = (Inr (), 0)"
    and m3: "make_agent (example_main_ops In_Monitor) () (monitor_path ?a) 0 = (Inr ?mon, 0)"
    and m4: "wrap_env (example_main_ops In_Monitor) ?mon (monitor_path ?a) 0
               = (Inl KeyboardInterrupt, 0)"
    by (simp_all add: example_main_ops_def make_agent_def new_A2CDiscrete_def wrap_env_def
          and_then_def ret_def)
  have p: "parse_args (example_main_ops In_parse_args) 0 = (Inl KeyboardInterrupt, 0)"
    by (simp add: example_main_ops_def)
  have c1: "parse_args (example_main_ops In_constructor) 0 = (Inr ?a, 0)"
    and c2: "gym_make (example_main_ops In_constructor) (environment ?a) 0 = (Inr (), 0)"
    and c3: "make_agent (example_main_ops In_constructor) () (monitor_path ?a) 0
               = (Inl KeyboardInterrupt, 0)"
    by (simp_all add: example_main_ops_def make_agent_def new_A2CDiscrete_def
          and_then_def ret_def)
  have g: "get_trajectories ?lops 1 = (Inl KeyboardInterrupt, 1)"
    by (simp add: example_ops_def)
  note in_learn = interrupt_caught_by_main [where ops = "example_main_ops In_learn"
      and w = 0 and a = ?a and ?w1.0 = 0 and env = "()" and ?w2.0 = 0 and ag = ?ag
      and ?w3.0 = 0 and ag' = ?ag and ?w4.0 = 0 and ?w5.0 = 1,
      THEN conjunct2, THEN conjunct1, rule_format, OF conjI [OF l1 conjI [OF l2 l3]],
      THEN conjunct2, rule_format, OF conjI [OF l4 learn]]
  note in_monitor = interrupt_caught_by_main [where ops = "example_main_ops In_Monitor"
      and w = 0 and a = ?a and ?w1.0 = 0 and env = "()" and ?w2.0 = 0 and ag = ?mon
      and ?w3.0 = 0 and ?w4.0 = 0,
      THEN conjunct2, THEN conjunct1, rule_format, OF conjI [OF m1 conjI [OF m2 m3]],
      THEN conjunct1, rule_format, OF m4]
  note in_parse = interrupt_caught_by_main [where ops = "example_main_ops In_parse_args"
      and w = 0 and e = KeyboardInterrupt and ?w1.0 = 0,
      THEN conjunct1, rule_format, OF p]
  have ex: "gym_make (example_main_ops In_constructor) (environment ?a) 0
        = (Inl KeyboardInterrupt, 0) \<or>
      (\<exists>env w'. gym_make (example_main_ops In_constructor) (environment ?a) 0 = (Inr env, w') \<and>
         make_agent (example_main_ops In_constructor) env (monitor_path ?a) w'
           = (Inl KeyboardInterrupt, 0))"
    using c2 c3 by blast
  note in_constructor = interrupt_caught_by_main [where ops = "example_main_ops In_constructor"
      and w = 0 and a = ?a and ?w1.0 = 0 and ?w2.0 = 0,
      THEN conjunct2, THEN conjunct2, THEN conjunct2, THEN conjunct2, rule_format,
      OF conjI [OF c1 ex]]
  show ?thesis
    by (intro conjI) (rule in_learn in_monitor in_parse in_constructor learn g)+
qed

end
